theory Spec2Isabelle
  imports Main "HOL-Library.Word" "HOL-Library.Char_ord" "HOL-Library.List_Lexorder"
begin

unbundle bit_operations_syntax

section \<open>Bytes, Python exceptions and the ctypes field setters\<close>

text \<open>
  The catalog writer is Python code over \<^verbatim>\<open>ctypes\<close> structures declared with
  \<^verbatim>\<open>_pack_ = 1\<close> on \<^verbatim>\<open>LittleEndianStructure\<close>: the bytes of a structure are the
  bytes of its fields in declaration order, least significant byte first, with no padding.
  A byte is an 8-bit word; a \<^verbatim>\<open>bytes\<close> object is a list of bytes.
\<close>

type_synonym byte = "8 word"

text \<open>The exceptions that the modelled code can raise.\<close>

datatype pyerr = TypeError | ValueError | StructError | OSError | SystemExit

definition bind_err :: "pyerr + 'a \<Rightarrow> ('a \<Rightarrow> pyerr + 'b) \<Rightarrow> pyerr + 'b" where
  "bind_err m f = (case m of Inl e \<Rightarrow> Inl e | Inr v \<Rightarrow> f v)"

definition le16 :: "16 word \<Rightarrow> byte list" where
  "le16 w = [ucast w, ucast (drop_bit 8 w)]"

definition le32 :: "32 word \<Rightarrow> byte list" where
  "le32 w = [ucast w, ucast (drop_bit 8 w), ucast (drop_bit 16 w), ucast (drop_bit 24 w)]"

text \<open>
  Reading a 32-bit little-endian field at the start of a buffer, as
  \<^verbatim>\<open>from_buffer_copy(data).CStuff.ERLen\<close> and \<^verbatim>\<open>struct.unpack\<close> do; \<^verbatim>\<open>None\<close> when the
  buffer is shorter than four bytes.
\<close>

fun read_le32 :: "byte list \<Rightarrow> 32 word option" where
  "read_le32 (b0 # b1 # b2 # b3 # rest) =
     Some (ucast b0 OR push_bit 8 (ucast b1) OR push_bit 16 (ucast b2) OR push_bit 24 (ucast b3))"
| "read_le32 _ = None"

text \<open>
  Assignment to a \<^verbatim>\<open>c_char * n\<close> field (CPython \<^verbatim>\<open>Modules/_ctypes/cfield.c\<close>, \<^verbatim>\<open>s_set\<close>):
  the value is cut at its first NUL byte (\<^verbatim>\<open>strlen\<close>); a value longer than the field
  raises \<^verbatim>\<open>ValueError\<close>; a shorter one is copied with one terminating NUL; the rest
  of the field keeps what it held.
\<close>

definition s_set :: "byte list \<Rightarrow> byte list \<Rightarrow> pyerr + byte list" where
  "s_set field v =
     (let data = takeWhile (\<lambda>b. b \<noteq> 0) v;
          size = length data;
          len = length field
      in if size < len then Inr (data @ [0] @ drop (size + 1) field)
         else if size > len then Inl ValueError
         else Inr data)"

text \<open>
  Assignment of a Python integer to a \<^verbatim>\<open>c_char\<close> field (\<^verbatim>\<open>c_set\<close>): accepted in
  \<^verbatim>\<open>0..255\<close>, otherwise \<^verbatim>\<open>TypeError\<close>.
\<close>

definition c_set :: "int \<Rightarrow> pyerr + byte" where
  "c_set v = (if v < 0 \<or> v \<ge> 256 then Inl TypeError else Inr (word_of_int v))"

section \<open>The catalog header\<close>

record FileID =
  ProgID :: "byte list"
  VerText :: "byte list"
  VerTextS :: "byte list"
  Padding :: "byte list"
  Special :: "byte list"
  DBVer :: byte
  Compressed :: byte
  Filler :: "byte list"
  EndMarker :: byte

text \<open>A fresh ctypes structure is zero-filled.\<close>

definition FileID_zero :: FileID where
  "FileID_zero = \<lparr> ProgID = replicate 26 0, VerText = replicate 4 0, VerTextS = replicate 2 0,
     Padding = replicate 12 0, Special = replicate 3 0, DBVer = 0, Compressed = 0,
     Filler = replicate 78 0, EndMarker = 0 \<rparr>"

definition bytes_of_str :: "string \<Rightarrow> byte list" where
  "bytes_of_str s = map of_char s"

definition FileID_Filler_literal :: "byte list" where
  "FileID_Filler_literal =
     [0x00, 0x00, 0x00, 0x00, 0x00, 0x00, 0x00, 0x00, 0x00, 0x00, 0x00, 0x00, 0x00, 0x00, 0x00, 0x7E,
      0x7E, 0x7E, 0x7E, 0x7E, 0x7E, 0x7E, 0x7E, 0x7E, 0x7E, 0x7E, 0x00, 0x00, 0x00, 0x00, 0x00, 0x00,
      0x00, 0x00, 0x00, 0x00, 0x00, 0x00, 0x00, 0x00, 0x00, 0x00, 0x00, 0x00, 0x00, 0x00, 0x00, 0x00,
      0x00, 0x00, 0x00, 0x00, 0x00, 0x00, 0x00, 0x00, 0x00, 0x00, 0x00, 0x00, 0x00, 0x00, 0x00, 0x00,
      0x00, 0x00, 0x00, 0x00, 0x00, 0x00, 0x00, 0x00, 0x00, 0x00, 0x00, 0x00, 0x00, 0x00]"

definition FileID_init :: "pyerr + FileID" where
  "FileID_init =
     (let self = FileID_zero in
      bind_err (s_set (ProgID self) (bytes_of_str ''FCW (FastCAD for Windows) '')) (\<lambda>v.
      let self = self\<lparr>ProgID := v\<rparr> in
      bind_err (s_set (VerText self) (bytes_of_str ''6.20'')) (\<lambda>v.
      let self = self\<lparr>VerText := v\<rparr> in
      bind_err (s_set (VerTextS self) (bytes_of_str ''.0'')) (\<lambda>v.
      let self = self\<lparr>VerTextS := v\<rparr> in
      bind_err (s_set (Padding self)
          [0x0D, 0x0A, 0x1A, 0x69, 0x6E, 0x67, 0x20, 0x66, 0x69, 0x6C, 0x65, 0x2E]) (\<lambda>v.
      let self = self\<lparr>Padding := v\<rparr> in
      bind_err (s_set (Special self) [13, 10, 26]) (\<lambda>v.
      let self = self\<lparr>Special := v, DBVer := 24\<rparr> in
      bind_err (s_set (Filler self) FileID_Filler_literal) (\<lambda>v.
      let self = self\<lparr>Filler := v, Compressed := 0, EndMarker := 0xFF\<rparr> in
      Inr self)))))))"

definition sizeof_FileID :: nat where
  "sizeof_FileID = 26 + 4 + 2 + 12 + 3 + 1 + 1 + 78 + 1"

definition bytes_FileID :: "FileID \<Rightarrow> byte list" where
  "bytes_FileID h = ProgID h @ VerText h @ VerTextS h @ Padding h @ Special h @
     [DBVer h] @ [Compressed h] @ Filler h @ [EndMarker h]"

text \<open>
  The write block of the script: the header is constructed, then header, info blocks and
  symbols are written in this order. The info blocks come from the module
  \<^verbatim>\<open>InfoBlocks\<close>, which is a parameter here.
\<close>

definition write_fsc :: "byte list \<Rightarrow> byte list \<Rightarrow> pyerr + byte list" where
  "write_fsc infoblocks symbols =
     bind_err FileID_init (\<lambda>fsc_header.
       Inr (bytes_FileID fsc_header @ infoblocks @ symbols))"

section \<open>Floating-point fields\<close>

text \<open>
  A Python \<^verbatim>\<open>float\<close> is an IEEE-754 double; a \<^verbatim>\<open>c_float\<close> field holds an IEEE-754
  single. Only non-negative finite values occur in the modelled code (\<^verbatim>\<open>0.0\<close>,
  \<^verbatim>\<open>1.0\<close> and an unsigned 32-bit pixel size divided by 40), so a float is modelled by
  a mantissa \<open>m\<close> and an exponent \<open>e\<close> with value \<open>m * 2 ^ e\<close>. Rounding is to nearest,
  ties to even, as the hardware does it.
\<close>

datatype pyfloat = PyFloat nat int

fun nbits :: "nat \<Rightarrow> nat" where
  "nbits n = (if n = 0 then 0 else Suc (nbits (n div 2)))"

declare nbits.simps [simp del]

text \<open>\<open>rne_div a b\<close> is the integer nearest to \<open>a / b\<close>, ties to even.\<close>

definition rne_div :: "nat \<Rightarrow> nat \<Rightarrow> nat" where
  "rne_div a b =
     (let q = a div b; r = a mod b
      in if 2 * r < b \<or> (2 * r = b \<and> even q) then q else q + 1)"

text \<open>\<open>ilog2_ratio a b\<close> is the floor of the binary logarithm of \<open>a / b\<close>, for positive \<open>a\<close>, \<open>b\<close>.\<close>

definition ilog2_ratio :: "nat \<Rightarrow> nat \<Rightarrow> int" where
  "ilog2_ratio a b =
     (let d = int (nbits a) - int (nbits b)
      in if (if d \<ge> 0 then a \<ge> b * 2 ^ nat d else a * 2 ^ nat (- d) \<ge> b) then d else d - 1)"

text \<open>
  \<open>round_binary p qmin a b\<close> rounds \<open>a / b\<close> to a binary float of precision \<open>p\<close> whose
  least exponent of the last place is \<open>qmin\<close>: the result \<open>(m, q)\<close> stands for \<open>m * 2 ^ q\<close>.
\<close>

definition round_binary :: "nat \<Rightarrow> int \<Rightarrow> nat \<Rightarrow> nat \<Rightarrow> nat \<times> int" where
  "round_binary p qmin a b =
     (if a = 0 then (0, qmin)
      else let q = max (ilog2_ratio a b - (int p - 1)) qmin
           in (if q \<ge> 0 then rne_div a (b * 2 ^ nat q) else rne_div (a * 2 ^ nat (- q)) b, q))"

text \<open>\<^verbatim>\<open>float(x)\<close>: \<^verbatim>\<open>TypeError\<close> on \<^verbatim>\<open>None\<close>; an integer below \<open>2 ^ 53\<close> converts exactly.\<close>

definition float_of_nat :: "nat \<Rightarrow> pyfloat" where
  "float_of_nat n =
     (if n < 2 ^ 53 then PyFloat n 0
      else case round_binary 53 (- 1074) n 1 of (m, q) \<Rightarrow> PyFloat m q)"

definition py_float :: "nat option \<Rightarrow> pyerr + pyfloat" where
  "py_float x = (case x of None \<Rightarrow> Inl TypeError | Some n \<Rightarrow> Inr (float_of_nat n))"

text \<open>\<^verbatim>\<open>f / k\<close> for a positive integer constant \<open>k\<close> (here 40): one correctly rounded double division.\<close>

definition py_truediv :: "pyfloat \<Rightarrow> nat \<Rightarrow> pyfloat" where
  "py_truediv f k =
     (case f of PyFloat m e \<Rightarrow>
        (case (if e \<ge> 0 then round_binary 53 (- 1074) (m * 2 ^ nat e) k
               else round_binary 53 (- 1074) m (k * 2 ^ nat (- e)))
         of (m', q) \<Rightarrow> PyFloat m' q))"

text \<open>
  Storing a Python float into a \<^verbatim>\<open>c_float\<close> field: the C conversion from double to
  single, then the IEEE-754 bit pattern (infinity on overflow).
\<close>

definition c_float_set :: "pyfloat \<Rightarrow> 32 word" where
  "c_float_set f =
     (case f of PyFloat m e \<Rightarrow>
        (case (if e \<ge> 0 then round_binary 24 (- 149) (m * 2 ^ nat e) 1
               else round_binary 24 (- 149) m (2 ^ nat (- e)))
         of (m', q) \<Rightarrow>
           let bits = nat (q + 149) * 2 ^ 23 + m'
           in if bits \<ge> 0x7F800000 then 0x7F800000 else word_of_int (int bits)))"

section \<open>Constants from the headers\<close>

definition ET_XP :: int where "ET_XP = 4"
definition ET_SYMDEF :: int where "ET_SYMDEF = 28"
definition XPID_PICTR :: int where "XPID_PICTR = 0xA004"
definition XT_PICTR :: int where "XT_PICTR = 1"
definition XPID_SYMINFO :: int where "XPID_SYMINFO = 0xA00B"
definition XT_SYMINFO :: int where "XT_SYMINFO = 97"
definition PF_NO_OUTLINE :: "32 word" where "PF_NO_OUTLINE = 1"
definition PF_RESINFO_VALID :: "32 word" where "PF_RESINFO_VALID = 4"
definition PF_RESINFO_ONLY1 :: "32 word" where "PF_RESINFO_ONLY1 = 8"
definition PICTR_VERSION :: int where "PICTR_VERSION = 0"
definition SYMINFO_VERSION :: int where "SYMINFO_VERSION = 1"
definition SF_GROUPED :: "32 word" where "SF_GROUPED = 0x00000002"
definition SF_VARICOLOR :: "32 word" where "SF_VARICOLOR = 0x00000004"
definition SGF_VARICOLOR :: "32 word" where "SGF_VARICOLOR = 0x00000080"
definition SGF_RANDOM :: "32 word" where "SGF_RANDOM = 0x00000100"
definition IMGX_ALPHA :: int where "IMGX_ALPHA = 2"
definition EF_CSREF :: int where "EF_CSREF = 0x08"

section \<open>The records\<close>

record CSTUFF =
  ERLen :: "32 word"
  EType :: byte
  EFlags :: byte
  EFlags2 :: byte
  EColor :: byte
  EColor2 :: byte
  EThick :: byte
  WPlane :: "16 word"
  ELayer :: "16 word"
  ELStyle :: "16 word"
  GroupID :: "16 word"
  EFStyle :: "16 word"
  LWidth :: "32 word"
  Tag :: "32 word"

definition sizeof_CSTUFF :: nat where
  "sizeof_CSTUFF = 4 + 1 + 1 + 1 + 1 + 1 + 1 + 2 + 2 + 2 + 2 + 2 + 4 + 4"

definition CSTUFF_zero :: CSTUFF where
  "CSTUFF_zero = \<lparr> ERLen = 0, EType = 0, EFlags = 0, EFlags2 = 0, EColor = 0, EColor2 = 0,
     EThick = 0, WPlane = 0, ELayer = 0, ELStyle = 0, GroupID = 0, EFStyle = 0, LWidth = 0,
     Tag = 0 \<rparr>"

text \<open>\<^verbatim>\<open>CSTUFF.__init__(self, len, type)\<close>, on the structure it is handed.\<close>

definition CSTUFF_init :: "CSTUFF \<Rightarrow> nat \<Rightarrow> int \<Rightarrow> CSTUFF" where
  "CSTUFF_init self len type =
     self\<lparr> ERLen := word_of_int (int len), EType := word_of_int type, EFlags := 0, EFlags2 := 0,
       EColor := 224, EColor2 := 224, EThick := 0, WPlane := 0, ELayer := 256, ELStyle := 0,
       GroupID := 0, EFStyle := 1, LWidth := c_float_set (PyFloat 0 0), Tag := 0 \<rparr>"

definition bytes_CSTUFF :: "CSTUFF \<Rightarrow> byte list" where
  "bytes_CSTUFF c = le32 (ERLen c) @ [EType c] @ [EFlags c] @ [EFlags2 c] @ [EColor c] @
     [EColor2 c] @ [EThick c] @ le16 (WPlane c) @ le16 (ELayer c) @ le16 (ELStyle c) @
     le16 (GroupID c) @ le16 (EFStyle c) @ le32 (LWidth c) @ le32 (Tag c)"

record GPOINT3 =
  p3x :: "32 word"
  p3y :: "32 word"
  p3z :: "32 word"

record GPOINT2 =
  p2x :: "32 word"
  p2y :: "32 word"

definition bytes_GPOINT3 :: "GPOINT3 \<Rightarrow> byte list" where
  "bytes_GPOINT3 p = le32 (p3x p) @ le32 (p3y p) @ le32 (p3z p)"

definition bytes_GPOINT2 :: "GPOINT2 \<Rightarrow> byte list" where
  "bytes_GPOINT2 p = le32 (p2x p) @ le32 (p2y p)"

definition GPOINT3_zero :: GPOINT3 where
  "GPOINT3_zero = \<lparr> p3x = 0, p3y = 0, p3z = 0 \<rparr>"

definition GPOINT2_zero :: GPOINT2 where
  "GPOINT2_zero = \<lparr> p2x = 0, p2y = 0 \<rparr>"

record SYMDEF =
  SYMDEF_CStuff :: CSTUFF
  Low :: GPOINT3
  Hi :: GPOINT3
  SYMDEF_Flags :: "32 word"
  SName :: "byte list"

definition sizeof_SYMDEF :: nat where
  "sizeof_SYMDEF = sizeof_CSTUFF + 12 + 12 + 4 + 32"

definition SYMDEF_zero :: SYMDEF where
  "SYMDEF_zero = \<lparr> SYMDEF_CStuff = CSTUFF_zero, Low = GPOINT3_zero, Hi = GPOINT3_zero,
     SYMDEF_Flags = 0, SName = replicate 32 0 \<rparr>"

definition SYMDEF_init :: "SYMDEF \<Rightarrow> SYMDEF" where
  "SYMDEF_init self =
     self\<lparr> SYMDEF_CStuff := CSTUFF_init (SYMDEF_CStuff self) sizeof_SYMDEF ET_SYMDEF \<rparr>"

definition bytes_SYMDEF :: "SYMDEF \<Rightarrow> byte list" where
  "bytes_SYMDEF d = bytes_CSTUFF (SYMDEF_CStuff d) @ bytes_GPOINT3 (Low d) @
     bytes_GPOINT3 (Hi d) @ le32 (SYMDEF_Flags d) @ SName d"

record Marker =
  Marker_ERLen :: "32 word"
  MType :: byte

definition sizeof_Marker :: nat where
  "sizeof_Marker = 4 + 1"

definition Marker_zero :: Marker where
  "Marker_zero = \<lparr> Marker_ERLen = 0, MType = 0 \<rparr>"

definition Marker_init :: "Marker \<Rightarrow> int \<Rightarrow> Marker" where
  "Marker_init self m_type_value =
     self\<lparr> Marker_ERLen := word_of_int (int sizeof_Marker), MType := word_of_int m_type_value \<rparr>"

definition Marker0_init :: "Marker \<Rightarrow> Marker" where
  "Marker0_init self = Marker_init self 0"

definition Marker1_init :: "Marker \<Rightarrow> Marker" where
  "Marker1_init self = Marker_init self 1"

definition bytes_Marker :: "Marker \<Rightarrow> byte list" where
  "bytes_Marker m = le32 (Marker_ERLen m) @ [MType m]"

record RESINFO =
  Present :: "32 word"
  res_width :: "32 word"
  res_height :: "32 word"

definition RESINFO_COUNT :: nat where
  "RESINFO_COUNT = 4"

definition RESINFO_zero :: RESINFO where
  "RESINFO_zero = \<lparr> Present = 0, res_width = 0, res_height = 0 \<rparr>"

definition bytes_RESINFO :: "RESINFO \<Rightarrow> byte list" where
  "bytes_RESINFO r = le32 (Present r) @ le32 (res_width r) @ le32 (res_height r)"

record PICTR =
  PICTR_CStuff :: CSTUFF
  PICTR_XPId :: "16 word"
  PICTR_XType :: byte
  PICTR_Version :: "32 word"
  PICTR_Flags :: "32 word"
  Mode :: "32 word"
  bmwid :: "32 word"
  bmhgt :: "32 word"
  Cen :: GPOINT2
  Bearing :: "32 word"
  RWid :: "32 word"
  RHgt :: "32 word"
  TColor :: "32 word"
  Alpha :: "32 word"
  ResInfo :: "RESINFO list"
  Reserve :: "32 word list"
  BMPName :: "byte list"

definition sizeof_PICTR :: nat where
  "sizeof_PICTR = sizeof_CSTUFF + 2 + 1 + 4 + 4 + 4 + 4 + 4 + 8 + 4 + 4 + 4 + 4 + 4 +
     12 * RESINFO_COUNT + 4 * 32 + 256"

definition PICTR_zero :: PICTR where
  "PICTR_zero = \<lparr> PICTR_CStuff = CSTUFF_zero, PICTR_XPId = 0, PICTR_XType = 0,
     PICTR_Version = 0, PICTR_Flags = 0, Mode = 0, bmwid = 0, bmhgt = 0, Cen = GPOINT2_zero,
     Bearing = 0, RWid = 0, RHgt = 0, TColor = 0, Alpha = 0,
     ResInfo = replicate RESINFO_COUNT RESINFO_zero, Reserve = replicate 32 0,
     BMPName = replicate 256 0 \<rparr>"

definition PICTR_init :: "PICTR \<Rightarrow> pyerr + PICTR" where
  "PICTR_init self =
     (let self = self\<lparr> PICTR_CStuff := CSTUFF_init (PICTR_CStuff self) sizeof_PICTR ET_XP,
                       PICTR_XPId := word_of_int XPID_PICTR \<rparr>
      in bind_err (c_set XT_PICTR) (\<lambda>t.
           Inr (self\<lparr> PICTR_XType := t, PICTR_Version := word_of_int PICTR_VERSION,
                  PICTR_Flags := PF_NO_OUTLINE OR PF_RESINFO_ONLY1 OR PF_RESINFO_VALID,
                  Mode := word_of_int IMGX_ALPHA \<rparr>)))"

definition bytes_PICTR :: "PICTR \<Rightarrow> byte list" where
  "bytes_PICTR p = bytes_CSTUFF (PICTR_CStuff p) @ le16 (PICTR_XPId p) @ [PICTR_XType p] @
     le32 (PICTR_Version p) @ le32 (PICTR_Flags p) @ le32 (Mode p) @ le32 (bmwid p) @
     le32 (bmhgt p) @ bytes_GPOINT2 (Cen p) @ le32 (Bearing p) @ le32 (RWid p) @
     le32 (RHgt p) @ le32 (TColor p) @ le32 (Alpha p) @ concat (map bytes_RESINFO (ResInfo p)) @
     concat (map le32 (Reserve p)) @ BMPName p"

record SYMINFO =
  SYMINFO_CStuff :: CSTUFF
  SYMINFO_XPId :: "16 word"
  SYMINFO_XType :: byte
  SYMINFO_Version :: "16 word"
  SYMINFO_Flags :: "32 word"
  Flags2 :: "32 word"
  RotA :: "32 word"
  RotB :: "32 word"
  TFlags :: "32 word"
  ScaleAX :: "32 word"
  ScaleBX :: "32 word"
  ScaleAY :: "32 word"
  ScaleBY :: "32 word"
  ShearA :: "32 word"
  ShearB :: "32 word"
  unused1 :: "byte list"
  OffsetHiX :: "32 word"
  OffsetHiY :: "32 word"
  OffsetLowX :: "32 word"
  OffsetLowY :: "32 word"
  GFlags :: "32 word"
  unused2 :: "byte list"
  Sheet :: "byte list"
  DrawToolName :: "byte list"
  unused3 :: "byte list"

definition sizeof_SYMINFO :: nat where
  "sizeof_SYMINFO = sizeof_CSTUFF + 2 + 1 + 2 + 4 + 4 + 4 + 4 + 4 + 4 + 4 + 4 + 4 + 4 + 4 + 4 +
     4 + 4 + 4 + 4 + 4 + 49 + 64 + 128 + 64"

definition SYMINFO_zero :: SYMINFO where
  "SYMINFO_zero = \<lparr> SYMINFO_CStuff = CSTUFF_zero, SYMINFO_XPId = 0, SYMINFO_XType = 0,
     SYMINFO_Version = 0, SYMINFO_Flags = 0, Flags2 = 0, RotA = 0, RotB = 0, TFlags = 0,
     ScaleAX = 0, ScaleBX = 0, ScaleAY = 0, ScaleBY = 0, ShearA = 0, ShearB = 0,
     unused1 = replicate 4 0, OffsetHiX = 0, OffsetHiY = 0, OffsetLowX = 0, OffsetLowY = 0,
     GFlags = 0, unused2 = replicate 49 0, Sheet = replicate 64 0,
     DrawToolName = replicate 128 0, unused3 = replicate 64 0 \<rparr>"

definition SYMINFO_init :: "SYMINFO \<Rightarrow> pyerr + SYMINFO" where
  "SYMINFO_init self =
     (let self = self\<lparr> SYMINFO_CStuff := CSTUFF_init (SYMINFO_CStuff self) sizeof_SYMINFO ET_XP,
                       SYMINFO_XPId := word_of_int XPID_SYMINFO \<rparr>
      in bind_err (c_set XT_SYMINFO) (\<lambda>t.
           Inr (self\<lparr> SYMINFO_XType := t, SYMINFO_Version := word_of_int SYMINFO_VERSION \<rparr>)))"

definition bytes_SYMINFO :: "SYMINFO \<Rightarrow> byte list" where
  "bytes_SYMINFO s = bytes_CSTUFF (SYMINFO_CStuff s) @ le16 (SYMINFO_XPId s) @
     [SYMINFO_XType s] @ le16 (SYMINFO_Version s) @ le32 (SYMINFO_Flags s) @ le32 (Flags2 s) @
     le32 (RotA s) @ le32 (RotB s) @ le32 (TFlags s) @ le32 (ScaleAX s) @ le32 (ScaleBX s) @
     le32 (ScaleAY s) @ le32 (ScaleBY s) @ le32 (ShearA s) @ le32 (ShearB s) @ unused1 s @
     le32 (OffsetHiX s) @ le32 (OffsetHiY s) @ le32 (OffsetLowX s) @ le32 (OffsetLowY s) @
     le32 (GFlags s) @ unused2 s @ Sheet s @ DrawToolName s @ unused3 s"

section \<open>Reading the size of a PNG image\<close>

text \<open>
  The file system is a parameter: a path names no file, a file that cannot be opened
  (a directory, a permission error: an \<^verbatim>\<open>OSError\<close> other than \<^verbatim>\<open>FileNotFoundError\<close>),
  or a file with its content.
\<close>

datatype fsnode = NoFile | NotReadable | Content "byte list"

type_synonym filesystem = "string \<Rightarrow> fsnode"

definition png_magic :: "byte list" where
  "png_magic = [0x89, 0x50, 0x4E, 0x47, 0x0D, 0x0A, 0x1A, 0x0A]"

definition be32 :: "byte list \<Rightarrow> nat" where
  "be32 bs = foldl (\<lambda>acc b. acc * 256 + unat b) 0 bs"

text \<open>
  \<^verbatim>\<open>png_dimensions\<close> catches \<^verbatim>\<open>FileNotFoundError\<close> and \<^verbatim>\<open>ValueError\<close> and then
  returns \<^verbatim>\<open>(None, None)\<close>. \<^verbatim>\<open>struct.unpack\<close> on fewer than eight bytes raises
  \<^verbatim>\<open>struct.error\<close>, which is not a \<^verbatim>\<open>ValueError\<close> and is not caught.
\<close>

definition png_dimensions :: "filesystem \<Rightarrow> string \<Rightarrow> pyerr + (nat option \<times> nat option)" where
  "png_dimensions fs file_path =
     (case fs file_path of
        NoFile \<Rightarrow> Inr (None, None)
      | NotReadable \<Rightarrow> Inl OSError
      | Content contents \<Rightarrow>
          let data = take 24 contents in
          if take 8 data = png_magic \<and> take 4 (drop 12 data) = [0x49, 0x48, 0x44, 0x52]
          then (if length (drop 16 data) = 8
                then Inr (Some (be32 (take 4 (drop 16 data))), Some (be32 (drop 20 data)))
                else Inl StructError)
          else Inr (None, None))"

section \<open>Strings\<close>

text \<open>
  A Python \<^verbatim>\<open>str\<close> is modelled by an Isabelle string, one character per code point; the
  model covers the code points below 256. \<^verbatim>\<open>encode('utf-8')\<close> writes a code point below
  128 as one byte and the others as two.
\<close>

definition encode_utf8 :: "string \<Rightarrow> byte list" where
  "encode_utf8 s = concat (map (\<lambda>c.
       let n = (of_char c :: byte)
       in if n < 128 then [n] else [0xC0 OR drop_bit 6 n, 0x80 OR (n AND 0x3F)]) s)"

section \<open>The two symbol entities\<close>

record SimpleSymbol =
  symbol_definition :: SYMDEF
  start_marker :: Marker
  picture_info :: PICTR
  symbol_info :: SYMINFO
  end_marker :: Marker

definition SimpleSymbol_zero :: SimpleSymbol where
  "SimpleSymbol_zero = \<lparr> symbol_definition = SYMDEF_zero, start_marker = Marker_zero,
     picture_info = PICTR_zero, symbol_info = SYMINFO_zero, end_marker = Marker_zero \<rparr>"

definition bytes_SimpleSymbol :: "SimpleSymbol \<Rightarrow> byte list" where
  "bytes_SimpleSymbol s = bytes_SYMDEF (symbol_definition s) @ bytes_Marker (start_marker s) @
     bytes_PICTR (picture_info s) @ bytes_SYMINFO (symbol_info s) @ bytes_Marker (end_marker s)"

text \<open>
  \<^verbatim>\<open>SimpleSymbol.__init__(self, name, file, isGroup)\<close>, statement by statement.
  A field of structure type is a view on the bytes of the enclosing structure, so the
  assignment \<^verbatim>\<open>self.symbol_definition.Hi.x = v\<close> is the nested update
  \<open>symbol_definition_update (Hi_update (p3x_update (\<lambda>_. v)))\<close>, and \<^verbatim>\<open>|=\<close> updates a
  field by a function of its old value.
\<close>

definition SimpleSymbol_init :: "filesystem \<Rightarrow> string \<Rightarrow> string \<Rightarrow> bool \<Rightarrow> pyerr + SimpleSymbol" where
  "SimpleSymbol_init fs name file isGroup =
     (
      let self = SimpleSymbol_zero;
          self = symbol_definition_update SYMDEF_init self in
      bind_err (s_set (SName (symbol_definition self)) (encode_utf8 name)) (\<lambda>sname.
      let self = symbol_definition_update (SName_update (\<lambda>_. sname)) self in
      bind_err (png_dimensions fs file) (\<lambda>(x, y).
      bind_err (py_float x) (\<lambda>fx.
      let self = symbol_definition_update (Hi_update (p3x_update (\<lambda>_. c_float_set (py_truediv fx 40)))) self in
      bind_err (py_float y) (\<lambda>fy.
      let self = symbol_definition_update (Hi_update (p3y_update (\<lambda>_. c_float_set (py_truediv fy 40)))) self;
          self = symbol_definition_update (Hi_update (p3z_update (\<lambda>_. c_float_set (PyFloat 0 0)))) self;
          self = symbol_definition_update (Low_update (p3x_update (\<lambda>_. c_float_set (PyFloat 0 0)))) self;
          self = symbol_definition_update (Low_update (p3y_update (\<lambda>_. c_float_set (PyFloat 0 0)))) self;
          self = symbol_definition_update (Low_update (p3z_update (\<lambda>_. c_float_set (PyFloat 0 0)))) self;
          self = start_marker_update Marker0_init self in
      bind_err (PICTR_init (picture_info self)) (\<lambda>pic.
      let self = picture_info_update (\<lambda>_. pic) self in
      bind_err (s_set (BMPName (picture_info self)) (encode_utf8 file)) (\<lambda>bmpname.
      let self = picture_info_update (BMPName_update (\<lambda>_. bmpname)) self in
      bind_err (py_float x) (\<lambda>fx.
      let self = picture_info_update (RWid_update (\<lambda>_. c_float_set (py_truediv fx 40))) self in
      bind_err (py_float y) (\<lambda>fy.
      let self = picture_info_update (RHgt_update (\<lambda>_. c_float_set (py_truediv fy 40))) self in
      bind_err (SYMINFO_init (symbol_info self)) (\<lambda>info.
      let self = symbol_info_update (\<lambda>_. info) self;
          self = symbol_info_update (ScaleAX_update (\<lambda>_. c_float_set (PyFloat 1 0))) self;
          self = symbol_info_update (ScaleAY_update (\<lambda>_. c_float_set (PyFloat 1 0))) self;
          self = symbol_info_update (ScaleBX_update (\<lambda>_. c_float_set (PyFloat 1 0))) self;
          self = symbol_info_update (ScaleBY_update (\<lambda>_. c_float_set (PyFloat 1 0))) self;
          self = (if isGroup
                  then (let self = symbol_info_update (SYMINFO_Flags_update (\<lambda>flags. flags OR SF_GROUPED)) self;
                            self = symbol_info_update (GFlags_update (\<lambda>gflags. gflags OR SGF_RANDOM)) self
                        in self)
                  else self);
          self = end_marker_update Marker1_init self in
      Inr self))))))))))"

record VaricolorSymbol =
  v_symbol_definition :: SYMDEF
  v_start_marker :: Marker
  picture1_info :: PICTR
  picture2_info :: PICTR
  v_symbol_info :: SYMINFO
  v_end_marker :: Marker

definition VaricolorSymbol_zero :: VaricolorSymbol where
  "VaricolorSymbol_zero = \<lparr> v_symbol_definition = SYMDEF_zero, v_start_marker = Marker_zero,
     picture1_info = PICTR_zero, picture2_info = PICTR_zero, v_symbol_info = SYMINFO_zero,
     v_end_marker = Marker_zero \<rparr>"

definition bytes_VaricolorSymbol :: "VaricolorSymbol \<Rightarrow> byte list" where
  "bytes_VaricolorSymbol s = bytes_SYMDEF (v_symbol_definition s) @
     bytes_Marker (v_start_marker s) @ bytes_PICTR (picture1_info s) @
     bytes_PICTR (picture2_info s) @ bytes_SYMINFO (v_symbol_info s) @
     bytes_Marker (v_end_marker s)"

text \<open>\<^verbatim>\<open>VaricolorSymbol.__init__(self, name, file1, file2, isGroup)\<close>, statement by statement.\<close>

definition VaricolorSymbol_init ::
    "filesystem \<Rightarrow> string \<Rightarrow> string \<Rightarrow> string \<Rightarrow> bool \<Rightarrow> pyerr + VaricolorSymbol" where
  "VaricolorSymbol_init fs name file1 file2 isGroup =
     (
      let self = VaricolorSymbol_zero;
          self = v_symbol_definition_update SYMDEF_init self in
      bind_err (s_set (SName (v_symbol_definition self)) (encode_utf8 name)) (\<lambda>sname.
      let self = v_symbol_definition_update (SName_update (\<lambda>_. sname)) self in
      bind_err (png_dimensions fs file1) (\<lambda>(x, y).
      bind_err (py_float x) (\<lambda>fx.
      let self = v_symbol_definition_update (Hi_update (p3x_update (\<lambda>_. c_float_set (py_truediv fx 40)))) self in
      bind_err (py_float y) (\<lambda>fy.
      let self = v_symbol_definition_update (Hi_update (p3y_update (\<lambda>_. c_float_set (py_truediv fy 40)))) self;
          self = v_symbol_definition_update (Hi_update (p3z_update (\<lambda>_. c_float_set (PyFloat 0 0)))) self;
          self = v_symbol_definition_update (Low_update (p3x_update (\<lambda>_. c_float_set (PyFloat 0 0)))) self;
          self = v_symbol_definition_update (Low_update (p3y_update (\<lambda>_. c_float_set (PyFloat 0 0)))) self;
          self = v_symbol_definition_update (Low_update (p3z_update (\<lambda>_. c_float_set (PyFloat 0 0)))) self;
          self = v_start_marker_update Marker0_init self in
      bind_err (PICTR_init (picture1_info self)) (\<lambda>pic.
      let self = picture1_info_update (\<lambda>_. pic) self in
      bind_err (s_set (BMPName (picture1_info self)) (encode_utf8 file1)) (\<lambda>bmpname.
      let self = picture1_info_update (BMPName_update (\<lambda>_. bmpname)) self in
      bind_err (py_float x) (\<lambda>fx.
      let self = picture1_info_update (RWid_update (\<lambda>_. c_float_set (py_truediv fx 40))) self in
      bind_err (py_float y) (\<lambda>fy.
      let self = picture1_info_update (RHgt_update (\<lambda>_. c_float_set (py_truediv fy 40))) self in
      bind_err (PICTR_init (picture2_info self)) (\<lambda>pic.
      let self = picture2_info_update (\<lambda>_. pic) self in
      bind_err (s_set (BMPName (picture2_info self)) (encode_utf8 file2)) (\<lambda>bmpname.
      let self = picture2_info_update (BMPName_update (\<lambda>_. bmpname)) self in
      bind_err (png_dimensions fs file2) (\<lambda>(x, y).
      bind_err (py_float x) (\<lambda>fx.
      let self = picture2_info_update (RWid_update (\<lambda>_. c_float_set (py_truediv fx 40))) self in
      bind_err (py_float y) (\<lambda>fy.
      let self = picture2_info_update (RHgt_update (\<lambda>_. c_float_set (py_truediv fy 40))) self in
      bind_err (c_set EF_CSREF) (\<lambda>eflags.
      let self = picture2_info_update (PICTR_CStuff_update (EFlags_update (\<lambda>_. eflags))) self in
      bind_err (SYMINFO_init (v_symbol_info self)) (\<lambda>info.
      let self = v_symbol_info_update (\<lambda>_. info) self;
          self = v_symbol_info_update (SYMINFO_Flags_update (\<lambda>_. SF_VARICOLOR)) self;
          self = v_symbol_info_update (ScaleAX_update (\<lambda>_. c_float_set (PyFloat 1 0))) self;
          self = v_symbol_info_update (ScaleAY_update (\<lambda>_. c_float_set (PyFloat 1 0))) self;
          self = v_symbol_info_update (ScaleBX_update (\<lambda>_. c_float_set (PyFloat 1 0))) self;
          self = v_symbol_info_update (ScaleBY_update (\<lambda>_. c_float_set (PyFloat 1 0))) self;
          self = (if isGroup
                  then (let self = v_symbol_info_update (SYMINFO_Flags_update (\<lambda>flags. flags OR SF_GROUPED)) self;
                            self = v_symbol_info_update (GFlags_update (\<lambda>gflags. gflags OR (SGF_VARICOLOR OR SGF_RANDOM))) self
                        in self)
                  else self);
          self = v_end_marker_update Marker1_init self in
      Inr self))))))))))))))))"

section \<open>File names: the string and path functions used by the grouping\<close>

text \<open>\<^verbatim>\<open>str.lower\<close> on code points below 256.\<close>

definition py_lower_char :: "char \<Rightarrow> char" where
  "py_lower_char c =
     (let n = (of_char c :: nat)
      in if (65 \<le> n \<and> n \<le> 90) \<or> (192 \<le> n \<and> n \<le> 222 \<and> n \<noteq> 215) then char_of (n + 32) else c)"

definition py_lower :: "string \<Rightarrow> string" where
  "py_lower s = map py_lower_char s"

definition endswith :: "string \<Rightarrow> string \<Rightarrow> bool" where
  "endswith s suffix = (length suffix \<le> length s \<and> drop (length s - length suffix) s = suffix)"

text \<open>\<^verbatim>\<open>sub in s\<close> for strings.\<close>

fun str_contains :: "string \<Rightarrow> string \<Rightarrow> bool" where
  "str_contains sub [] = (sub = [])"
| "str_contains sub (c # cs) = (take (length sub) (c # cs) = sub \<or> str_contains sub cs)"

text \<open>\<^verbatim>\<open>filename.encode('ascii', errors='strict')\<close> succeeds when every code point is below 128.\<close>

definition check_filename_compatibility :: "string \<Rightarrow> bool" where
  "check_filename_compatibility filename = list_all (\<lambda>c. (of_char c :: nat) < 128) filename"

text \<open>The classes \<^verbatim>\<open>\s\<close> and \<^verbatim>\<open>\d\<close> of the \<^verbatim>\<open>re\<close> module, on code points below 256.\<close>

definition is_space :: "char \<Rightarrow> bool" where
  "is_space c = ((of_char c :: nat) \<in> {9, 10, 11, 12, 13, 28, 29, 30, 31, 32, 133, 160})"

definition is_digit :: "char \<Rightarrow> bool" where
  "is_digit c = (48 \<le> (of_char c :: nat) \<and> (of_char c :: nat) \<le> 57)"

definition newline :: char where
  "newline = CHR 0x0A"

text \<open>
  Both patterns have the shape \<^verbatim>\<open>(.*?)TAIL$\<close> and are applied with \<^verbatim>\<open>match\<close>, which
  anchors at the start. The lazy group is tried at length 0, 1, 2, ... and never crosses
  a newline; the first length at which the tail matches the whole rest wins, and the
  result is the text of group 1.
\<close>

fun lazy_group :: "(string \<Rightarrow> bool) \<Rightarrow> string \<Rightarrow> string \<Rightarrow> string option" where
  "lazy_group tail pre [] = (if tail [] then Some pre else None)"
| "lazy_group tail pre (c # cs) =
     (if tail (c # cs) then Some pre
      else if c = newline then None
      else lazy_group tail (pre @ [c]) cs)"

text \<open>
  The tail \<^verbatim>\<open>\s+vari_0[1-2]{1}\.png$\<close> under \<^verbatim>\<open>re.IGNORECASE\<close>; \<^verbatim>\<open>$\<close> also matches
  before a final newline.
\<close>

definition variant_tail :: "string \<Rightarrow> bool" where
  "variant_tail r =
     (let t = py_lower (dropWhile is_space r)
      in takeWhile is_space r \<noteq> [] \<and>
         (t = ''vari_01.png'' \<or> t = ''vari_02.png'' \<or>
          t = ''vari_01.png'' @ [newline] \<or> t = ''vari_02.png'' @ [newline]))"

definition variant_pattern_match :: "string \<Rightarrow> string option" where
  "variant_pattern_match s = lazy_group variant_tail [] s"

text \<open>The tail \<^verbatim>\<open>(\d+)$\<close> of \<^verbatim>\<open>subgroup_pattern = ^(.*?)(\d+)$\<close>.\<close>

definition digits_tail :: "string \<Rightarrow> bool" where
  "digits_tail r =
     (takeWhile is_digit r \<noteq> [] \<and>
      (dropWhile is_digit r = [] \<or> dropWhile is_digit r = [newline]))"

definition subgroup_pattern_match :: "string \<Rightarrow> string option" where
  "subgroup_pattern_match s = lazy_group digits_tail [] s"

text \<open>The path functions are those of \<^verbatim>\<open>posixpath\<close>.\<close>

definition rfind :: "char \<Rightarrow> string \<Rightarrow> int" where
  "rfind c s =
     (if c \<in> set s then int (length s) - 1 - int (length (takeWhile (\<lambda>x. x \<noteq> c) (rev s)))
      else - 1)"

definition splitext :: "string \<Rightarrow> string \<times> string" where
  "splitext p =
     (let sepIndex = rfind (CHR ''/'') p; dotIndex = rfind (CHR ''.'') p
      in if dotIndex > sepIndex
         then (if list_all (\<lambda>c. c = CHR ''.'') (take (nat (dotIndex - (sepIndex + 1))) (drop (nat (sepIndex + 1)) p))
               then (p, [])
               else (take (nat dotIndex) p, drop (nat dotIndex) p))
         else (p, []))"

definition path_join :: "string \<Rightarrow> string \<Rightarrow> string" where
  "path_join a b =
     (if take 1 b = ''/'' then b
      else if a = [] \<or> endswith a ''/'' then a @ b
      else a @ ''/'' @ b)"

fun split_sep :: "string \<Rightarrow> string list" where
  "split_sep [] = [[]]"
| "split_sep (c # cs) =
     (if c = CHR ''/'' then [] # split_sep cs
      else (case split_sep cs of [] \<Rightarrow> [[c]] | component # components \<Rightarrow> (c # component) # components))"

fun join_sep :: "string list \<Rightarrow> string" where
  "join_sep [] = []"
| "join_sep [component] = component"
| "join_sep (component # components) = component @ ''/'' @ join_sep components"

fun norm_comps :: "nat \<Rightarrow> string list \<Rightarrow> string list \<Rightarrow> string list" where
  "norm_comps initial_slashes new_comps [] = new_comps"
| "norm_comps initial_slashes new_comps (component # components) =
     (if component = [] \<or> component = ''.'' then norm_comps initial_slashes new_comps components
      else if component = ''..''
      then (if (initial_slashes = 0 \<and> new_comps = []) \<or> (new_comps \<noteq> [] \<and> last new_comps = ''..'')
            then norm_comps initial_slashes (new_comps @ [component]) components
            else if new_comps \<noteq> [] then norm_comps initial_slashes (butlast new_comps) components
            else norm_comps initial_slashes new_comps components)
      else norm_comps initial_slashes (new_comps @ [component]) components)"

definition normpath :: "string \<Rightarrow> string" where
  "normpath path =
     (if path = [] then ''.''
      else let initial_slashes =
                 (if take 1 path = ''/''
                  then (if take 2 path = ''//'' \<and> take 3 path \<noteq> ''///'' then 2 else 1)
                  else (0::nat));
               p = replicate initial_slashes (CHR ''/'') @
                   join_sep (norm_comps initial_slashes [] (split_sep path))
           in if p = [] then ''.'' else p)"

section \<open>Grouping the files of a directory\<close>

text \<open>
  A \<^verbatim>\<open>defaultdict(list)\<close> is an association list in insertion order: the second pass
  iterates over \<^verbatim>\<open>groups.items()\<close> in that order.
\<close>

type_synonym dd = "(string \<times> string list) list"

definition dd_append :: "dd \<Rightarrow> string \<Rightarrow> string \<Rightarrow> dd" where
  "dd_append d k v =
     (if k \<in> set (map fst d)
      then map (\<lambda>(k', vs). if k' = k then (k', vs @ [v]) else (k', vs)) d
      else d @ [(k, [v])])"

definition dd_get :: "dd \<Rightarrow> string \<Rightarrow> string list" where
  "dd_get d k = (case map_of d k of None \<Rightarrow> [] | Some vs \<Rightarrow> vs)"

record pass1 =
  groups :: dd
  subgroup_variant :: dd
  subgroup_normal :: dd
  skip_count :: nat

definition pass1_init :: pass1 where
  "pass1_init = \<lparr> groups = [], subgroup_variant = [], subgroup_normal = [], skip_count = 0 \<rparr>"

text \<open>The body of the first loop of \<^verbatim>\<open>process_symbol_images\<close>, for one file name.\<close>

definition first_pass_step :: "string \<Rightarrow> pass1 \<Rightarrow> string \<Rightarrow> pass1" where
  "first_pass_step directory_path st filename =
     (if \<not> endswith (py_lower filename) ''.png'' then st
      else if \<not> check_filename_compatibility filename then st\<lparr> skip_count := skip_count st + 1 \<rparr>
      else
        let full_path = path_join directory_path filename;
            match = variant_pattern_match filename;
            base_symbol_name = (case match of Some g1 \<Rightarrow> g1 | None \<Rightarrow> fst (splitext filename));
            st = st\<lparr> groups := dd_append (groups st) base_symbol_name full_path \<rparr>
        in case subgroup_pattern_match base_symbol_name of
             None \<Rightarrow> st
           | Some name_without_number \<Rightarrow>
               if match \<noteq> None
               then st\<lparr> subgroup_variant := dd_append (subgroup_variant st) name_without_number full_path \<rparr>
               else st\<lparr> subgroup_normal := dd_append (subgroup_normal st) name_without_number full_path \<rparr>)"

definition first_pass :: "string \<Rightarrow> string list \<Rightarrow> pass1" where
  "first_pass directory_path listing = foldl (first_pass_step directory_path) pass1_init listing"

text \<open>What the second loop decides for one group, before any symbol is built.\<close>

datatype action =
    VariantPair string string string bool
  | SingleSymbol string string bool
  | Unhandled string "string list"

definition in_subgroup :: "dd \<Rightarrow> string \<Rightarrow> nat \<Rightarrow> bool" where
  "in_subgroup subgroup symbol_name n =
     (case subgroup_pattern_match symbol_name of
        None \<Rightarrow> False
      | Some g1 \<Rightarrow> g1 \<in> set (map fst subgroup) \<and> length (dd_get subgroup g1) > n)"

definition group_action :: "pass1 \<Rightarrow> string \<times> string list \<Rightarrow> action" where
  "group_action st g =
     (case g of (symbol_name, files) \<Rightarrow>
        if length files = 2 \<and> list_all (str_contains ''vari_'') files
        then (let files = sort files
              in VariantPair symbol_name (files ! 0) (files ! 1)
                   (in_subgroup (subgroup_variant st) symbol_name 2))
        else if length files = 1 \<and> \<not> str_contains ''vari_'' (files ! 0)
        then SingleSymbol symbol_name (files ! 0) (in_subgroup (subgroup_normal st) symbol_name 1)
        else Unhandled symbol_name files)"

definition handle_variant_pair ::
    "filesystem \<Rightarrow> string \<Rightarrow> string \<Rightarrow> string \<Rightarrow> bool \<Rightarrow> pyerr + VaricolorSymbol" where
  "handle_variant_pair fs symbol_name file_01_path file_02_path isGroup =
     VaricolorSymbol_init fs symbol_name (normpath file_01_path) (normpath file_02_path) isGroup"

definition handle_single_symbol ::
    "filesystem \<Rightarrow> string \<Rightarrow> string \<Rightarrow> bool \<Rightarrow> pyerr + SimpleSymbol" where
  "handle_single_symbol fs symbol_name file_path isGroup =
     SimpleSymbol_init fs symbol_name (normpath file_path) isGroup"

text \<open>The second loop: an exception raised while a symbol is built leaves the loop.\<close>

fun second_pass :: "filesystem \<Rightarrow> pass1 \<Rightarrow> dd \<Rightarrow> byte list list \<Rightarrow> pyerr + byte list list" where
  "second_pass fs st [] all_symbols = Inr all_symbols"
| "second_pass fs st (g # gs) all_symbols =
     (case group_action st g of
        VariantPair symbol_name f1 f2 grp \<Rightarrow>
          bind_err (handle_variant_pair fs symbol_name f1 f2 grp) (\<lambda>sym.
            second_pass fs st gs (all_symbols @ [bytes_VaricolorSymbol sym]))
      | SingleSymbol symbol_name f grp \<Rightarrow>
          bind_err (handle_single_symbol fs symbol_name f grp) (\<lambda>sym.
            second_pass fs st gs (all_symbols @ [bytes_SimpleSymbol sym]))
      | Unhandled symbol_name files \<Rightarrow> second_pass fs st gs all_symbols)"

text \<open>
  \<^verbatim>\<open>process_symbol_images(directory_path)\<close>; \<open>listdir\<close> stands for \<^verbatim>\<open>os.listdir\<close>.
\<close>

definition process_symbol_images ::
    "filesystem \<Rightarrow> (string \<Rightarrow> string list) \<Rightarrow> string \<Rightarrow> pyerr + byte list" where
  "process_symbol_images fs listdir directory_path =
     (let st = first_pass directory_path (listdir directory_path)
      in bind_err (second_pass fs st (groups st) []) (\<lambda>all_symbols. Inr (concat all_symbols)))"

text \<open>
  The main block from the expanded source directories on: every directory is processed,
  then the catalog is written.
\<close>

fun process_directories ::
    "filesystem \<Rightarrow> (string \<Rightarrow> string list) \<Rightarrow> string list \<Rightarrow> byte list list \<Rightarrow> pyerr + byte list list" where
  "process_directories fs listdir [] symbol_list = Inr symbol_list"
| "process_directories fs listdir (directory # rest) symbol_list =
     bind_err (process_symbol_images fs listdir directory) (\<lambda>symbols_from_dir.
       process_directories fs listdir rest (symbol_list @ [symbols_from_dir]))"

definition create_symbol_catalog ::
    "filesystem \<Rightarrow> (string \<Rightarrow> string list) \<Rightarrow> byte list \<Rightarrow> string list \<Rightarrow> pyerr + byte list" where
  "create_symbol_catalog fs listdir infoblocks expanded_source_dirs =
     (if expanded_source_dirs = [] then Inl SystemExit
      else bind_err (process_directories fs listdir expanded_source_dirs []) (\<lambda>symbol_list.
             write_fsc infoblocks (concat symbol_list)))"

section \<open>Properties and example inputs\<close>

text \<open>
  The record-length field \<open>len\<close> of a record with bytes \<open>bs\<close> is right when it is the
  number of bytes of the record and when reading the first four bytes of the record back
  as a little-endian integer gives the same value.
\<close>

definition ERLen_matches :: "32 word \<Rightarrow> byte list \<Rightarrow> bool" where
  "ERLen_matches len bs = (unat len = length bs \<and> read_le32 bs = Some len)"

text \<open>
  Example inputs: two PNG headers of different sizes, and a file system with two good
  images, a truncated PNG, a text file and otherwise nothing.
\<close>

definition example_png_100x3 :: "byte list" where
  "example_png_100x3 = png_magic @ [0, 0, 0, 13, 0x49, 0x48, 0x44, 0x52] @ [0, 0, 0, 100] @ [0, 0, 0, 3]"

definition example_png_7x9 :: "byte list" where
  "example_png_7x9 = png_magic @ [0, 0, 0, 13, 0x49, 0x48, 0x44, 0x52] @ [0, 0, 0, 7] @ [0, 0, 0, 9]"

definition example_fs :: filesystem where
  "example_fs path =
     (if path = ''d/Tree.png'' \<or> path = ''d/Tower vari_01.png'' then Content example_png_100x3
      else if path = ''d/Tower vari_02.png'' then Content example_png_7x9
      else if path = ''d/Cut.png'' then Content (take 20 example_png_7x9)
      else if path = ''d/Text.png'' then Content (bytes_of_str ''not an image'')
      else NoFile)"

text \<open>A symbol name of 37 ASCII characters, and a directory with one good image and one text file.\<close>

definition example_long_name :: string where
  "example_long_name = ''Walled Garden With Fountain North 001''"

definition example_listdir :: "string \<Rightarrow> string list" where
  "example_listdir directory = (if directory = ''d'' then [''Tree.png'', ''Text.png''] else [])"

text \<open>
  The vocabulary of the grouping: a file name is accepted by the first loop when it ends in
  \<^verbatim>\<open>.png\<close> in any letter case and is ASCII; its group key is the base name that the loop
  computes for it; the actions of a directory are the decisions of the second loop, one per
  group and in the order of the groups.
\<close>

definition accepted :: "string \<Rightarrow> bool" where
  "accepted filename =
     (endswith (py_lower filename) ''.png'' \<and> check_filename_compatibility filename)"

definition group_key :: "string \<Rightarrow> string" where
  "group_key filename =
     (case variant_pattern_match filename of
        Some g1 \<Rightarrow> g1
      | None \<Rightarrow> fst (splitext filename))"

definition symbol_actions :: "string \<Rightarrow> string list \<Rightarrow> action list" where
  "symbol_actions directory_path listing =
     (let st = first_pass directory_path listing in map (group_action st) (groups st))"

fun action_name :: "action \<Rightarrow> string" where
  "action_name (VariantPair symbol_name f1 f2 grp) = symbol_name"
| "action_name (SingleSymbol symbol_name f grp) = symbol_name"
| "action_name (Unhandled symbol_name files) = symbol_name"

text \<open>Carrying out one action, and all of them in order, as the second loop does.\<close>

definition build_action :: "filesystem \<Rightarrow> action \<Rightarrow> pyerr + byte list list" where
  "build_action fs a =
     (case a of
        VariantPair symbol_name f1 f2 grp \<Rightarrow>
          bind_err (handle_variant_pair fs symbol_name f1 f2 grp) (\<lambda>sym.
            Inr [bytes_VaricolorSymbol sym])
      | SingleSymbol symbol_name f grp \<Rightarrow>
          bind_err (handle_single_symbol fs symbol_name f grp) (\<lambda>sym.
            Inr [bytes_SimpleSymbol sym])
      | Unhandled symbol_name files \<Rightarrow> Inr [])"

fun build_actions :: "filesystem \<Rightarrow> action list \<Rightarrow> byte list list \<Rightarrow> pyerr + byte list list" where
  "build_actions fs [] all_symbols = Inr all_symbols"
| "build_actions fs (a # as) all_symbols =
     bind_err (build_action fs a) (\<lambda>built. build_actions fs as (all_symbols @ built))"

text \<open>The directory of the scenario in the specification.\<close>

definition example_listing :: "string list" where
  "example_listing = [''Tower 01.png'', ''Tower vari_02.png'', ''Tower 02.png'', ''Tower vari_01.png'']"

section \<open>Basic facts about the encoders and setters\<close>

lemma length_le16 [simp]: "length (le16 w) = 2" by (simp add: le16_def)
lemma length_le32 [simp]: "length (le32 w) = 4" by (simp add: le32_def)

lemma read_le32_le32 [simp]: "read_le32 (le32 w @ rest) = Some w"
  apply (simp add: le32_def)
  apply (rule bit_word_eqI)
  apply (auto simp add: bit_simps)
  subgoal for n by (cases "n < 24") auto
  done

lemma bind_err_Inr [simp]: "bind_err (Inr v) f = f v" by (simp add: bind_err_def)
lemma bind_err_Inl [simp]: "bind_err (Inl e) f = Inl e" by (simp add: bind_err_def)
lemma bind_err_eq_Inr: "bind_err m f = Inr r \<longleftrightarrow> (\<exists>v. m = Inr v \<and> f v = Inr r)"
  by (cases m) auto

lemma s_set_length: "s_set field v = Inr r \<Longrightarrow> length r = length field"
  by (auto simp: s_set_def Let_def split: if_splits)

lemma length_bytes_CSTUFF [simp]: "length (bytes_CSTUFF c) = 28"
  by (simp add: bytes_CSTUFF_def)

lemma py_float_eq_Inr: "py_float x = Inr f \<longleftrightarrow> (\<exists>n. x = Some n \<and> f = float_of_nat n)"
  by (auto simp: py_float_def split: option.splits)

lemma c_set_small [simp]: "c_set XT_PICTR = Inr 1" "c_set XT_SYMINFO = Inr 97" "c_set EF_CSREF = Inr 8"
  by (simp_all add: c_set_def XT_PICTR_def XT_SYMINFO_def EF_CSREF_def)

lemma c_float_zero [simp]: "c_float_set (PyFloat 0 0) = 0"
  by (simp add: c_float_set_def round_binary_def)

lemma SimpleSymbol_zero_sel [simp]:
  "symbol_definition SimpleSymbol_zero = SYMDEF_zero"
  "start_marker SimpleSymbol_zero = Marker_zero"
  "picture_info SimpleSymbol_zero = PICTR_zero"
  "symbol_info SimpleSymbol_zero = SYMINFO_zero"
  "end_marker SimpleSymbol_zero = Marker_zero"
  by (simp_all add: SimpleSymbol_zero_def)

lemma SYMDEF_zero_sel [simp]:
  "SYMDEF_CStuff SYMDEF_zero = CSTUFF_zero" "Low SYMDEF_zero = GPOINT3_zero"
  "Hi SYMDEF_zero = GPOINT3_zero" "SYMDEF_Flags SYMDEF_zero = 0" "SName SYMDEF_zero = replicate 32 0"
  by (simp_all add: SYMDEF_zero_def)

lemma PICTR_init_eq: "PICTR_init p = Inr (p\<lparr> PICTR_CStuff := CSTUFF_init (PICTR_CStuff p) sizeof_PICTR ET_XP,
      PICTR_XPId := word_of_int XPID_PICTR, PICTR_XType := 1, PICTR_Version := word_of_int PICTR_VERSION,
      PICTR_Flags := PF_NO_OUTLINE OR PF_RESINFO_ONLY1 OR PF_RESINFO_VALID, Mode := word_of_int IMGX_ALPHA \<rparr>)"
  by (simp add: PICTR_init_def Let_def)

lemma SYMINFO_init_eq: "SYMINFO_init p = Inr (p\<lparr> SYMINFO_CStuff := CSTUFF_init (SYMINFO_CStuff p) sizeof_SYMINFO ET_XP,
      SYMINFO_XPId := word_of_int XPID_SYMINFO, SYMINFO_XType := 97, SYMINFO_Version := word_of_int SYMINFO_VERSION \<rparr>)"
  by (simp add: SYMINFO_init_def Let_def)



lemma length_concat_replicate [simp]: "length (concat (replicate n xs)) = n * length xs"
  by (induction n) auto

lemma length_bytes_RESINFO [simp]: "length (bytes_RESINFO r) = 12"
  by (simp add: bytes_RESINFO_def)

lemma length_bytes_Marker [simp]: "length (bytes_Marker m) = 5"
  by (simp add: bytes_Marker_def)

lemma length_bytes_SYMDEF: "length (SName d) = 32 \<Longrightarrow> length (bytes_SYMDEF d) = 88"
  by (simp add: bytes_SYMDEF_def bytes_GPOINT3_def)

lemma length_concat_map_const:
  "(\<And>x. length (f x) = k) \<Longrightarrow> length (concat (map f xs)) = k * length xs"
  by (induction xs) auto

lemma length_bytes_PICTR:
  "length (ResInfo p) = 4 \<Longrightarrow> length (Reserve p) = 32 \<Longrightarrow> length (BMPName p) = 256 \<Longrightarrow>
   length (bytes_PICTR p) = 511"
  by (simp add: bytes_PICTR_def bytes_GPOINT2_def length_concat_map_const [where k = 12]
      length_concat_map_const [where k = 4])

lemma length_bytes_SYMINFO:
  "length (unused1 s) = 4 \<Longrightarrow> length (unused2 s) = 49 \<Longrightarrow> length (Sheet s) = 64 \<Longrightarrow>
   length (DrawToolName s) = 128 \<Longrightarrow> length (unused3 s) = 64 \<Longrightarrow>
   length (bytes_SYMINFO s) = 406"
  by (simp add: bytes_SYMINFO_def)

lemma sizeof_values [simp]:
  "sizeof_CSTUFF = 28" "sizeof_SYMDEF = 88" "sizeof_Marker = 5" "sizeof_PICTR = 511"
  "sizeof_SYMINFO = 406" "sizeof_FileID = 128"
  by (simp_all add: sizeof_CSTUFF_def sizeof_SYMDEF_def sizeof_Marker_def sizeof_PICTR_def
      sizeof_SYMINFO_def sizeof_FileID_def RESINFO_COUNT_def)

lemma read_le32_bytes_CSTUFF [simp]: "read_le32 (bytes_CSTUFF c @ rest) = Some (ERLen c)"
  by (simp add: bytes_CSTUFF_def)

lemma read_le32_bytes_Marker [simp]: "read_le32 (bytes_Marker m) = Some (Marker_ERLen m)"
  by (simp add: bytes_Marker_def)

lemma FileID_init_value:
  "FileID_init = Inr \<lparr> ProgID = bytes_of_str ''FCW (FastCAD for Windows) '',
     VerText = bytes_of_str ''6.20'', VerTextS = bytes_of_str ''.0'',
     Padding = [0x0D, 0x0A, 0x1A, 0x69, 0x6E, 0x67, 0x20, 0x66, 0x69, 0x6C, 0x65, 0x2E],
     Special = [13, 10, 26], DBVer = 24, Compressed = 0,
     Filler = 0 # replicate 77 0, EndMarker = 0xFF \<rparr>"
  by (simp add: FileID_init_def FileID_zero_def s_set_def bytes_of_str_def
      FileID_Filler_literal_def Let_def)

section \<open>What the two constructors compute\<close>

text \<open>
  Each constructor either raises at one of its fallible statements, in program order, or
  returns the structure below.
\<close>

lemma SimpleSymbol_init_eq:
  "SimpleSymbol_init fs name file g =
     (case s_set (replicate 32 0) (encode_utf8 name) of Inl e \<Rightarrow> Inl e | Inr sname \<Rightarrow>
      case png_dimensions fs file of Inl e \<Rightarrow> Inl e | Inr (x, y) \<Rightarrow>
      case x of None \<Rightarrow> Inl TypeError | Some w \<Rightarrow>
      case y of None \<Rightarrow> Inl TypeError | Some h \<Rightarrow>
      case s_set (replicate 256 0) (encode_utf8 file) of Inl e \<Rightarrow> Inl e | Inr bmp \<Rightarrow>
      Inr \<lparr>symbol_definition =
           \<lparr>SYMDEF_CStuff = \<lparr>ERLen = word_of_nat sizeof_SYMDEF, EType = word_of_int ET_SYMDEF, EFlags = 0, EFlags2 = 0,
             EColor = 224, EColor2 = 224, EThick = 0, WPlane = 0, ELayer = 256, ELStyle = 0,
             GroupID = 0, EFStyle = 1, LWidth = 0, Tag = 0\<rparr>,
           Low = \<lparr>p3x = 0, p3y = 0, p3z = 0\<rparr>,
           Hi = \<lparr>p3x = c_float_set (py_truediv (float_of_nat w) 40),
                  p3y = c_float_set (py_truediv (float_of_nat h) 40), p3z = 0\<rparr>,
           SYMDEF_Flags = 0, SName = sname\<rparr>,
         start_marker = \<lparr>Marker_ERLen = word_of_nat sizeof_Marker, MType = 0\<rparr>,
         picture_info =
           \<lparr>PICTR_CStuff = \<lparr>ERLen = word_of_nat sizeof_PICTR, EType = word_of_int ET_XP, EFlags = 0, EFlags2 = 0,
             EColor = 224, EColor2 = 224, EThick = 0, WPlane = 0, ELayer = 256, ELStyle = 0,
             GroupID = 0, EFStyle = 1, LWidth = 0, Tag = 0\<rparr>,
           PICTR_XPId = word_of_int XPID_PICTR, PICTR_XType = 1,
           PICTR_Version = word_of_int PICTR_VERSION,
           PICTR_Flags = PF_NO_OUTLINE OR PF_RESINFO_ONLY1 OR PF_RESINFO_VALID,
           Mode = word_of_int IMGX_ALPHA, bmwid = 0, bmhgt = 0, Cen = \<lparr>p2x = 0, p2y = 0\<rparr>,
           Bearing = 0, RWid = c_float_set (py_truediv (float_of_nat w) 40),
           RHgt = c_float_set (py_truediv (float_of_nat h) 40), TColor = 0, Alpha = 0,
           ResInfo = replicate RESINFO_COUNT RESINFO_zero, Reserve = replicate 32 0,
           BMPName = bmp\<rparr>,
         symbol_info =
           \<lparr>SYMINFO_CStuff = \<lparr>ERLen = word_of_nat sizeof_SYMINFO, EType = word_of_int ET_XP, EFlags = 0, EFlags2 = 0,
             EColor = 224, EColor2 = 224, EThick = 0, WPlane = 0, ELayer = 256, ELStyle = 0,
             GroupID = 0, EFStyle = 1, LWidth = 0, Tag = 0\<rparr>,
           SYMINFO_XPId = word_of_int XPID_SYMINFO, SYMINFO_XType = 97,
           SYMINFO_Version = word_of_int SYMINFO_VERSION,
           SYMINFO_Flags = (if g then SF_GROUPED else 0), Flags2 = 0, RotA = 0, RotB = 0, TFlags = 0,
           ScaleAX = c_float_set (PyFloat 1 0), ScaleBX = c_float_set (PyFloat 1 0),
           ScaleAY = c_float_set (PyFloat 1 0), ScaleBY = c_float_set (PyFloat 1 0),
           ShearA = 0, ShearB = 0, unused1 = replicate 4 0, OffsetHiX = 0, OffsetHiY = 0,
           OffsetLowX = 0, OffsetLowY = 0, GFlags = (if g then SGF_RANDOM else 0),
           unused2 = replicate 49 0, Sheet = replicate 64 0, DrawToolName = replicate 128 0,
           unused3 = replicate 64 0\<rparr>,
         end_marker = \<lparr>Marker_ERLen = word_of_nat sizeof_Marker, MType = 1\<rparr>\<rparr>)"
  by (simp add: SimpleSymbol_init_def Let_def py_float_def SYMDEF_init_def PICTR_init_eq
      SYMINFO_init_eq SimpleSymbol_zero_def SYMDEF_zero_def PICTR_zero_def SYMINFO_zero_def
      Marker_zero_def CSTUFF_zero_def CSTUFF_init_def GPOINT3_zero_def GPOINT2_zero_def
      Marker0_init_def Marker1_init_def Marker_init_def
      split: sum.splits option.splits prod.splits)

lemma VaricolorSymbol_init_eq:
  "VaricolorSymbol_init fs name file1 file2 g =
     (case s_set (replicate 32 0) (encode_utf8 name) of Inl e \<Rightarrow> Inl e | Inr sname \<Rightarrow>
      case png_dimensions fs file1 of Inl e \<Rightarrow> Inl e | Inr (x, y) \<Rightarrow>
      case x of None \<Rightarrow> Inl TypeError | Some w \<Rightarrow>
      case y of None \<Rightarrow> Inl TypeError | Some h \<Rightarrow>
      case s_set (replicate 256 0) (encode_utf8 file1) of Inl e \<Rightarrow> Inl e | Inr bmp1 \<Rightarrow>
      case s_set (replicate 256 0) (encode_utf8 file2) of Inl e \<Rightarrow> Inl e | Inr bmp2 \<Rightarrow>
      case png_dimensions fs file2 of Inl e \<Rightarrow> Inl e | Inr (x2, y2) \<Rightarrow>
      case x2 of None \<Rightarrow> Inl TypeError | Some w2 \<Rightarrow>
      case y2 of None \<Rightarrow> Inl TypeError | Some h2 \<Rightarrow>
      Inr \<lparr>v_symbol_definition =
           \<lparr>SYMDEF_CStuff = \<lparr>ERLen = word_of_nat sizeof_SYMDEF, EType = word_of_int ET_SYMDEF, EFlags = 0, EFlags2 = 0,
             EColor = 224, EColor2 = 224, EThick = 0, WPlane = 0, ELayer = 256, ELStyle = 0,
             GroupID = 0, EFStyle = 1, LWidth = 0, Tag = 0\<rparr>,
           Low = \<lparr>p3x = 0, p3y = 0, p3z = 0\<rparr>,
           Hi = \<lparr>p3x = c_float_set (py_truediv (float_of_nat w) 40),
                  p3y = c_float_set (py_truediv (float_of_nat h) 40), p3z = 0\<rparr>,
           SYMDEF_Flags = 0, SName = sname\<rparr>,
         v_start_marker = \<lparr>Marker_ERLen = word_of_nat sizeof_Marker, MType = 0\<rparr>,
         picture1_info =
           \<lparr>PICTR_CStuff = \<lparr>ERLen = word_of_nat sizeof_PICTR, EType = word_of_int ET_XP, EFlags = 0, EFlags2 = 0,
             EColor = 224, EColor2 = 224, EThick = 0, WPlane = 0, ELayer = 256, ELStyle = 0,
             GroupID = 0, EFStyle = 1, LWidth = 0, Tag = 0\<rparr>,
           PICTR_XPId = word_of_int XPID_PICTR, PICTR_XType = 1,
           PICTR_Version = word_of_int PICTR_VERSION,
           PICTR_Flags = PF_NO_OUTLINE OR PF_RESINFO_ONLY1 OR PF_RESINFO_VALID,
           Mode = word_of_int IMGX_ALPHA, bmwid = 0, bmhgt = 0, Cen = \<lparr>p2x = 0, p2y = 0\<rparr>,
           Bearing = 0, RWid = c_float_set (py_truediv (float_of_nat w) 40),
           RHgt = c_float_set (py_truediv (float_of_nat h) 40), TColor = 0, Alpha = 0,
           ResInfo = replicate RESINFO_COUNT RESINFO_zero, Reserve = replicate 32 0,
           BMPName = bmp1\<rparr>,
         picture2_info =
           \<lparr>PICTR_CStuff = \<lparr>ERLen = word_of_nat sizeof_PICTR, EType = word_of_int ET_XP, EFlags = 8, EFlags2 = 0,
             EColor = 224, EColor2 = 224, EThick = 0, WPlane = 0, ELayer = 256, ELStyle = 0,
             GroupID = 0, EFStyle = 1, LWidth = 0, Tag = 0\<rparr>,
           PICTR_XPId = word_of_int XPID_PICTR, PICTR_XType = 1,
           PICTR_Version = word_of_int PICTR_VERSION,
           PICTR_Flags = PF_NO_OUTLINE OR PF_RESINFO_ONLY1 OR PF_RESINFO_VALID,
           Mode = word_of_int IMGX_ALPHA, bmwid = 0, bmhgt = 0, Cen = \<lparr>p2x = 0, p2y = 0\<rparr>,
           Bearing = 0, RWid = c_float_set (py_truediv (float_of_nat w2) 40),
           RHgt = c_float_set (py_truediv (float_of_nat h2) 40), TColor = 0, Alpha = 0,
           ResInfo = replicate RESINFO_COUNT RESINFO_zero, Reserve = replicate 32 0,
           BMPName = bmp2\<rparr>,
         v_symbol_info =
           \<lparr>SYMINFO_CStuff = \<lparr>ERLen = word_of_nat sizeof_SYMINFO, EType = word_of_int ET_XP, EFlags = 0, EFlags2 = 0,
             EColor = 224, EColor2 = 224, EThick = 0, WPlane = 0, ELayer = 256, ELStyle = 0,
             GroupID = 0, EFStyle = 1, LWidth = 0, Tag = 0\<rparr>,
           SYMINFO_XPId = word_of_int XPID_SYMINFO, SYMINFO_XType = 97,
           SYMINFO_Version = word_of_int SYMINFO_VERSION,
           SYMINFO_Flags = (if g then SF_VARICOLOR OR SF_GROUPED else SF_VARICOLOR), Flags2 = 0, RotA = 0, RotB = 0, TFlags = 0,
           ScaleAX = c_float_set (PyFloat 1 0), ScaleBX = c_float_set (PyFloat 1 0),
           ScaleAY = c_float_set (PyFloat 1 0), ScaleBY = c_float_set (PyFloat 1 0),
           ShearA = 0, ShearB = 0, unused1 = replicate 4 0, OffsetHiX = 0, OffsetHiY = 0,
           OffsetLowX = 0, OffsetLowY = 0, GFlags = (if g then SGF_VARICOLOR OR SGF_RANDOM else 0),
           unused2 = replicate 49 0, Sheet = replicate 64 0, DrawToolName = replicate 128 0,
           unused3 = replicate 64 0\<rparr>,
         v_end_marker = \<lparr>Marker_ERLen = word_of_nat sizeof_Marker, MType = 1\<rparr>\<rparr>)"
  by (simp add: VaricolorSymbol_init_def Let_def py_float_def SYMDEF_init_def PICTR_init_eq
      SYMINFO_init_eq VaricolorSymbol_zero_def SYMDEF_zero_def PICTR_zero_def SYMINFO_zero_def
      Marker_zero_def CSTUFF_zero_def CSTUFF_init_def GPOINT3_zero_def GPOINT2_zero_def
      Marker0_init_def Marker1_init_def Marker_init_def
      split: sum.splits option.splits prod.splits)

lemma example_png_dimensions [simp]:
  "png_dimensions example_fs ''d/Tree.png'' = Inr (Some 100, Some 3)"
  "png_dimensions example_fs ''d/Tower vari_01.png'' = Inr (Some 100, Some 3)"
  "png_dimensions example_fs ''d/Tower vari_02.png'' = Inr (Some 7, Some 9)"
  "png_dimensions example_fs ''d/Cut.png'' = Inl StructError"
  "png_dimensions example_fs ''d/Text.png'' = Inr (None, None)"
  "png_dimensions example_fs ''d/Gone.png'' = Inr (None, None)"
  by (simp_all add: png_dimensions_def example_fs_def example_png_100x3_def example_png_7x9_def
      png_magic_def be32_def bytes_of_str_def)

lemma s_set_fits:
  "length (takeWhile (\<lambda>b. b \<noteq> 0) v) \<le> length field \<Longrightarrow> \<exists>r. s_set field v = Inr r"
  by (simp add: s_set_def Let_def)

lemma s_set_too_long:
  "length (takeWhile (\<lambda>b. b \<noteq> 0) v) > length field \<Longrightarrow> s_set field v = Inl ValueError"
  by (simp add: s_set_def Let_def)

lemma length_encode_utf8_le: "length (encode_utf8 s) \<le> 2 * length s"
  by (induction s) (auto simp: encode_utf8_def Let_def)

lemma SimpleSymbol_init_succeeds:
  assumes "length (takeWhile (\<lambda>b. b \<noteq> 0) (encode_utf8 name)) \<le> 32"
    and "png_dimensions fs file = Inr (Some w, Some h)"
    and "length (takeWhile (\<lambda>b. b \<noteq> 0) (encode_utf8 file)) \<le> 256"
  shows "\<exists>s. SimpleSymbol_init fs name file g = Inr s"
proof -
  obtain sname where "s_set (replicate 32 0) (encode_utf8 name) = Inr sname"
    using s_set_fits [of "encode_utf8 name" "replicate 32 0"] assms(1) by auto
  moreover obtain bmp where "s_set (replicate 256 0) (encode_utf8 file) = Inr bmp"
    using s_set_fits [of "encode_utf8 file" "replicate 256 0"] assms(3) by auto
  ultimately show ?thesis
    using assms(2) by (simp add: SimpleSymbol_init_eq)
qed

lemma VaricolorSymbol_init_succeeds:
  assumes "length (takeWhile (\<lambda>b. b \<noteq> 0) (encode_utf8 name)) \<le> 32"
    and "png_dimensions fs file1 = Inr (Some w, Some h)"
    and "length (takeWhile (\<lambda>b. b \<noteq> 0) (encode_utf8 file1)) \<le> 256"
    and "png_dimensions fs file2 = Inr (Some w2, Some h2)"
    and "length (takeWhile (\<lambda>b. b \<noteq> 0) (encode_utf8 file2)) \<le> 256"
  shows "\<exists>s. VaricolorSymbol_init fs name file1 file2 g = Inr s"
proof -
  obtain sname where "s_set (replicate 32 0) (encode_utf8 name) = Inr sname"
    using s_set_fits [of "encode_utf8 name" "replicate 32 0"] assms(1) by auto
  moreover obtain bmp where "s_set (replicate 256 0) (encode_utf8 file1) = Inr bmp"
    using s_set_fits [of "encode_utf8 file1" "replicate 256 0"] assms(3) by auto
  moreover obtain bmp2 where "s_set (replicate 256 0) (encode_utf8 file2) = Inr bmp2"
    using s_set_fits [of "encode_utf8 file2" "replicate 256 0"] assms(5) by auto
  ultimately show ?thesis
    using assms(2,4) by (simp add: VaricolorSymbol_init_eq)
qed

lemma example_simple_built: "\<exists>s. SimpleSymbol_init example_fs ''Tree'' ''d/Tree.png'' True = Inr s"
  by (rule SimpleSymbol_init_succeeds [where w = 100 and h = 3])
     (simp_all add: encode_utf8_def)

lemma example_varicolor_built:
  "\<exists>v. VaricolorSymbol_init example_fs ''Tower'' ''d/Tower vari_01.png'' ''d/Tower vari_02.png'' True = Inr v"
  by (rule VaricolorSymbol_init_succeeds [where w = 100 and h = 3 and ?w2.0 = 7 and ?h2.0 = 9])
     (simp_all add: encode_utf8_def)

lemma SimpleSymbol_init_InrD:
  assumes "SimpleSymbol_init fs name file g = Inr s"
  shows "length (SName (symbol_definition s)) = 32"
    "ERLen (SYMDEF_CStuff (symbol_definition s)) = 88"
    "start_marker s = \<lparr>Marker_ERLen = 5, MType = 0\<rparr>"
    "end_marker s = \<lparr>Marker_ERLen = 5, MType = 1\<rparr>"
    "ERLen (PICTR_CStuff (picture_info s)) = 511"
    "length (ResInfo (picture_info s)) = 4" "length (Reserve (picture_info s)) = 32"
    "length (BMPName (picture_info s)) = 256"
    "ERLen (SYMINFO_CStuff (symbol_info s)) = 406"
    "length (unused1 (symbol_info s)) = 4" "length (unused2 (symbol_info s)) = 49"
    "length (Sheet (symbol_info s)) = 64" "length (DrawToolName (symbol_info s)) = 128"
    "length (unused3 (symbol_info s)) = 64"
  using assms
  by (auto simp: SimpleSymbol_init_eq RESINFO_COUNT_def dest: s_set_length
      split: sum.splits option.splits prod.splits)

lemma VaricolorSymbol_init_InrD:
  assumes "VaricolorSymbol_init fs name file1 file2 g = Inr s"
  shows "length (SName (v_symbol_definition s)) = 32"
    "ERLen (SYMDEF_CStuff (v_symbol_definition s)) = 88"
    "v_start_marker s = \<lparr>Marker_ERLen = 5, MType = 0\<rparr>"
    "v_end_marker s = \<lparr>Marker_ERLen = 5, MType = 1\<rparr>"
    "ERLen (PICTR_CStuff (picture1_info s)) = 511"
    "length (ResInfo (picture1_info s)) = 4" "length (Reserve (picture1_info s)) = 32"
    "length (BMPName (picture1_info s)) = 256"
    "ERLen (PICTR_CStuff (picture2_info s)) = 511"
    "length (ResInfo (picture2_info s)) = 4" "length (Reserve (picture2_info s)) = 32"
    "length (BMPName (picture2_info s)) = 256"
    "ERLen (SYMINFO_CStuff (v_symbol_info s)) = 406"
    "length (unused1 (v_symbol_info s)) = 4" "length (unused2 (v_symbol_info s)) = 49"
    "length (Sheet (v_symbol_info s)) = 64" "length (DrawToolName (v_symbol_info s)) = 128"
    "length (unused3 (v_symbol_info s)) = 64"
  using assms
  by (auto simp: VaricolorSymbol_init_eq RESINFO_COUNT_def dest: s_set_length
      split: sum.splits option.splits prod.splits)

lemma read_le32_bytes_SYMDEF [simp]:
  "read_le32 (bytes_SYMDEF d @ rest) = Some (ERLen (SYMDEF_CStuff d))"
  by (simp add: bytes_SYMDEF_def)

lemma ERLen_matches_SYMDEF:
  "length (SName d) = 32 \<Longrightarrow> ERLen (SYMDEF_CStuff d) = 88 \<Longrightarrow> len = 88 \<Longrightarrow>
   ERLen_matches len (bytes_SYMDEF d)"
  using length_bytes_SYMDEF [of d] by (simp add: ERLen_matches_def) (simp add: bytes_SYMDEF_def)

lemma ERLen_matches_PICTR:
  "length (ResInfo p) = 4 \<Longrightarrow> length (Reserve p) = 32 \<Longrightarrow> length (BMPName p) = 256 \<Longrightarrow>
   ERLen (PICTR_CStuff p) = 511 \<Longrightarrow> len = 511 \<Longrightarrow> ERLen_matches len (bytes_PICTR p)"
  using length_bytes_PICTR [of p] by (simp add: ERLen_matches_def) (simp add: bytes_PICTR_def)

lemma ERLen_matches_SYMINFO:
  "length (unused1 s) = 4 \<Longrightarrow> length (unused2 s) = 49 \<Longrightarrow> length (Sheet s) = 64 \<Longrightarrow>
   length (DrawToolName s) = 128 \<Longrightarrow> length (unused3 s) = 64 \<Longrightarrow>
   ERLen (SYMINFO_CStuff s) = 406 \<Longrightarrow> len = 406 \<Longrightarrow> ERLen_matches len (bytes_SYMINFO s)"
  using length_bytes_SYMINFO [of s] by (simp add: ERLen_matches_def) (simp add: bytes_SYMINFO_def)

lemma ERLen_matches_Marker:
  "Marker_ERLen m = 5 \<Longrightarrow> len = 5 \<Longrightarrow> ERLen_matches len (bytes_Marker m)"
  by (simp add: ERLen_matches_def)

lemma le32_5: "le32 5 = [5, 0, 0, 0]"
  by (simp add: le32_def)

lemma bytes_Marker_values:
  "bytes_Marker \<lparr>Marker_ERLen = 5, MType = t\<rparr> = [5, 0, 0, 0, t]"
  by (simp add: bytes_Marker_def le32_5)

lemma flag_values [simp]:
  "SF_VARICOLOR OR SF_GROUPED = 6" "SGF_VARICOLOR OR SGF_RANDOM = 0x180"
  "(6::32 word) AND SF_VARICOLOR = SF_VARICOLOR" "(6::32 word) AND SF_GROUPED = SF_GROUPED"
  "SF_VARICOLOR AND SF_VARICOLOR = SF_VARICOLOR" "SF_VARICOLOR AND SF_GROUPED = 0"
  "(0x180::32 word) AND SGF_VARICOLOR = SGF_VARICOLOR" "(0x180::32 word) AND SGF_RANDOM = SGF_RANDOM"
  by (simp_all add: SF_VARICOLOR_def SF_GROUPED_def SGF_VARICOLOR_def SGF_RANDOM_def)

lemma example_floats [simp]:
  "c_float_set (py_truediv (float_of_nat 100) 40) = 0x40200000"
  "c_float_set (py_truediv (float_of_nat 3) 40) = 0x3D99999A"
  "c_float_set (py_truediv (float_of_nat 7) 40) = 0x3E333333"
  "c_float_set (py_truediv (float_of_nat 9) 40) = 0x3E666666"
  by (simp_all add: c_float_set_def py_truediv_def float_of_nat_def round_binary_def
      ilog2_ratio_def rne_div_def nbits.simps Let_def)

lemma unat_of_char: "unat (of_char c :: byte) = of_char c"
proof -
  have "unat (of_nat (of_char c) :: byte) = of_char c mod 256"
    by (simp add: unat_of_nat)
  then show ?thesis by (simp add: of_nat_of_char)
qed

lemma of_char_byte_less: "(of_char c :: byte) < 128 \<longleftrightarrow> (of_char c :: nat) < 128"
  by (simp add: word_less_nat_alt unat_of_char)

lemma of_char_byte_eq_0: "(of_char c :: byte) = 0 \<longleftrightarrow> (of_char c :: nat) = 0"
proof -
  have "(of_char c :: byte) = 0 \<longleftrightarrow> unat (of_char c :: byte) = 0"
    by (simp add: unat_eq_0)
  then show ?thesis by (simp add: unat_of_char)
qed

lemma encode_utf8_ascii:
  "list_all (\<lambda>c. (of_char c :: nat) < 128) s \<Longrightarrow> encode_utf8 s = map of_char s"
  by (induction s) (simp_all add: encode_utf8_def Let_def of_char_byte_less)

lemma takeWhile_nonzero_ascii:
  "list_all (\<lambda>c. 0 < (of_char c :: nat)) s \<Longrightarrow>
   takeWhile (\<lambda>b. b \<noteq> 0) (map of_char s :: byte list) = map of_char s"
  by (induction s) (simp_all add: of_char_byte_eq_0)

lemma s_set_raises_iff:
  "s_set field v = Inl e \<longleftrightarrow> e = ValueError \<and> length (takeWhile (\<lambda>b. b \<noteq> 0) v) > length field"
  by (auto simp: s_set_def Let_def)

lemma s_set_padded:
  assumes "s_set (replicate n 0) v = Inr r" and "0 \<notin> set v"
  shows "r = v @ replicate (n - length v) 0"
proof -
  have tw: "takeWhile (\<lambda>b. b \<noteq> 0) v = v"
    using assms(2) by (induction v) auto
  show ?thesis
    using assms(1) 
    by (auto simp: s_set_def Let_def tw replicate_Suc [symmetric] Suc_diff_le simp del: replicate_Suc split: if_splits)
qed

lemma example_first_pass: "first_pass ''d'' [''Tree.png'', ''Text.png''] =
   \<lparr>groups = [(''Tree'', [''d/Tree.png'']), (''Text'', [''d/Text.png''])], subgroup_variant = [],
     subgroup_normal = [], skip_count = 0\<rparr>"
  by code_simp

lemma example_first_pass_single: "first_pass ''d'' [''Tree.png''] =
   \<lparr>groups = [(''Tree'', [''d/Tree.png''])], subgroup_variant = [],
     subgroup_normal = [], skip_count = 0\<rparr>"
  by code_simp

lemma example_group_action: "group_action st (''Tree'', [''d/Tree.png'']) = SingleSymbol ''Tree'' ''d/Tree.png'' False"
  "group_action st (''Text'', [''d/Text.png'']) = SingleSymbol ''Text'' ''d/Text.png'' False"
  by (simp_all add: group_action_def in_subgroup_def subgroup_pattern_match_def digits_tail_def is_digit_def newline_def)

lemma example_normpath: "normpath ''d/Tree.png'' = ''d/Tree.png''" "normpath ''d/Text.png'' = ''d/Text.png''"
  by code_simp+


section \<open>Facts about the grouping\<close>

subsection \<open>The dictionaries\<close>

lemma dd_append_keys:
  "map fst (dd_append d k v) = (if k \<in> set (map fst d) then map fst d else map fst d @ [k])"
  by (auto simp: dd_append_def split: prod.splits)

lemma dd_append_distinct:
  "distinct (map fst d) \<Longrightarrow> distinct (map fst (dd_append d k v))"
  by (auto simp: dd_append_keys)

lemma map_of_dd_append_same:
  "map_of (dd_append d k v) k = Some (dd_get d k @ [v])"
proof (cases "k \<in> set (map fst d)")
  case True
  then have "map_of (map (\<lambda>(k', vs). if k' = k then (k', vs @ [v]) else (k', vs)) d) k =
      Some (dd_get d k @ [v])"
    by (induction d) (auto simp: dd_get_def)
  with True show ?thesis by (simp add: dd_append_def)
next
  case False
  then have "map_of d k = None"
    by (simp add: map_of_eq_None_iff)
  with False show ?thesis by (simp add: dd_append_def dd_get_def map_add_def)
qed

lemma map_of_dd_append_other:
  "k' \<noteq> k \<Longrightarrow> map_of (dd_append d k v) k' = map_of d k'"
proof (cases "k \<in> set (map fst d)")
  case True
  assume "k' \<noteq> k"
  then have "map_of (map (\<lambda>(k', vs). if k' = k then (k', vs @ [v]) else (k', vs)) d) k' = map_of d k'"
    by (induction d) auto
  with True show ?thesis by (simp add: dd_append_def)
next
  case False
  assume "k' \<noteq> k"
  with False show ?thesis by (simp add: dd_append_def map_add_def split: option.splits)
qed

lemma dd_get_dd_append:
  "dd_get (dd_append d k v) k' = (if k' = k then dd_get d k @ [v] else dd_get d k')"
  by (simp add: dd_get_def map_of_dd_append_same map_of_dd_append_other)

lemma dd_get_absent:
  "k \<notin> set (map fst d) \<Longrightarrow> dd_get d k = []"
  by (simp add: dd_get_def map_of_eq_None_iff [THEN iffD2])

subsection \<open>The first pass\<close>

lemma first_pass_snoc:
  "first_pass dir (listing @ [f]) = first_pass_step dir (first_pass dir listing) f"
  by (simp add: first_pass_def)

lemma first_pass_step_rejected:
  "\<not> accepted f \<Longrightarrow> groups (first_pass_step dir st f) = groups st \<and>
     subgroup_variant (first_pass_step dir st f) = subgroup_variant st \<and>
     subgroup_normal (first_pass_step dir st f) = subgroup_normal st"
  by (auto simp: first_pass_step_def accepted_def)

lemma first_pass_step_groups:
  "accepted f \<Longrightarrow>
   groups (first_pass_step dir st f) = dd_append (groups st) (group_key f) (path_join dir f)"
  by (auto simp: first_pass_step_def accepted_def group_key_def Let_def split: option.splits)

lemma first_pass_step_subgroup_normal:
  "accepted f \<Longrightarrow>
   subgroup_normal (first_pass_step dir st f) =
     (case subgroup_pattern_match (group_key f) of
        None \<Rightarrow> subgroup_normal st
      | Some p \<Rightarrow> if variant_pattern_match f = None
                  then dd_append (subgroup_normal st) p (path_join dir f)
                  else subgroup_normal st)"
  by (auto simp: first_pass_step_def accepted_def group_key_def Let_def split: option.splits)

lemma first_pass_step_subgroup_variant:
  "accepted f \<Longrightarrow>
   subgroup_variant (first_pass_step dir st f) =
     (case subgroup_pattern_match (group_key f) of
        None \<Rightarrow> subgroup_variant st
      | Some p \<Rightarrow> if variant_pattern_match f \<noteq> None
                  then dd_append (subgroup_variant st) p (path_join dir f)
                  else subgroup_variant st)"
  by (auto simp: first_pass_step_def accepted_def group_key_def Let_def split: option.splits)

lemma groups_distinct: "distinct (map fst (groups (first_pass dir listing)))"
proof (induction listing rule: rev_induct)
  case Nil
  then show ?case by (simp add: first_pass_def pass1_init_def)
next
  case (snoc f listing)
  then show ?case
    by (cases "accepted f")
       (simp_all add: first_pass_snoc first_pass_step_groups first_pass_step_rejected dd_append_distinct)
qed

lemma groups_files:
  "dd_get (groups (first_pass dir listing)) k =
     map (path_join dir) (filter (\<lambda>f. accepted f \<and> group_key f = k) listing)"
proof (induction listing arbitrary: k rule: rev_induct)
  case Nil
  then show ?case by (simp add: first_pass_def pass1_init_def dd_get_def)
next
  case (snoc f listing)
  then show ?case
    by (cases "accepted f")
       (simp_all add: first_pass_snoc first_pass_step_groups first_pass_step_rejected dd_get_dd_append)
qed

lemma dd_append_nonempty:
  "[] \<notin> snd ` set d \<Longrightarrow> [] \<notin> snd ` set (dd_append d k v)"
  by (auto simp: dd_append_def image_iff split: if_splits)

lemma groups_nonempty_aux: "[] \<notin> snd ` set (groups (first_pass dir listing))"
proof (induction listing rule: rev_induct)
  case Nil
  then show ?case by (simp add: first_pass_def pass1_init_def)
next
  case (snoc f listing)
  then show ?case
    by (cases "accepted f")
       (simp_all add: first_pass_snoc first_pass_step_groups first_pass_step_rejected
          dd_append_nonempty)
qed

lemma groups_nonempty:
  "(k, files) \<in> set (groups (first_pass dir listing)) \<Longrightarrow> files \<noteq> []"
  using groups_nonempty_aux [of dir listing] by (force simp: image_iff)

lemma groups_keys:
  "k \<in> set (map fst (groups (first_pass dir listing))) \<longleftrightarrow>
     (\<exists>f \<in> set listing. accepted f \<and> group_key f = k)"
proof (induction listing rule: rev_induct)
  case Nil
  then show ?case by (simp add: first_pass_def pass1_init_def)
next
  case (snoc f listing)
  then show ?case
    by (cases "accepted f")
       (auto simp: first_pass_snoc first_pass_step_groups first_pass_step_rejected dd_append_keys)
qed

lemma subgroup_normal_files:
  "dd_get (subgroup_normal (first_pass dir listing)) p =
     map (path_join dir)
       (filter (\<lambda>f. accepted f \<and> variant_pattern_match f = None \<and>
                    subgroup_pattern_match (group_key f) = Some p) listing)"
proof (induction listing arbitrary: p rule: rev_induct)
  case Nil
  then show ?case by (simp add: first_pass_def pass1_init_def dd_get_def)
next
  case (snoc f listing)
  then show ?case
    by (cases "accepted f")
       (auto simp: first_pass_snoc first_pass_step_subgroup_normal first_pass_step_rejected
          dd_get_dd_append split: option.splits)
qed

lemma subgroup_variant_files:
  "dd_get (subgroup_variant (first_pass dir listing)) p =
     map (path_join dir)
       (filter (\<lambda>f. accepted f \<and> variant_pattern_match f \<noteq> None \<and>
                    subgroup_pattern_match (group_key f) = Some p) listing)"
proof (induction listing arbitrary: p rule: rev_induct)
  case Nil
  then show ?case by (simp add: first_pass_def pass1_init_def dd_get_def)
next
  case (snoc f listing)
  then show ?case
    by (cases "accepted f")
       (auto simp: first_pass_snoc first_pass_step_subgroup_variant first_pass_step_rejected
          dd_get_dd_append split: option.splits)
qed

lemma in_subgroup_iff:
  "in_subgroup d name n \<longleftrightarrow>
     (\<exists>p. subgroup_pattern_match name = Some p \<and> length (dd_get d p) > n)"
  by (force simp: in_subgroup_def dd_get_def map_of_eq_None_iff image_iff split: option.splits
      dest!: map_of_SomeD)

subsection \<open>One action per group\<close>

lemma action_name_group_action [simp]: "action_name (group_action st (k, files)) = k"
  by (simp add: group_action_def Let_def)

lemma filter_key_distinct:
  "distinct (map fst d) \<Longrightarrow> (k, v) \<in> set d \<Longrightarrow> filter (\<lambda>g. fst g = k) d = [(k, v)]"
proof (induction d)
  case Nil
  then show ?case by simp
next
  case (Cons a d)
  show ?case
  proof (cases "fst a = k")
    case True
    with Cons.prems have "a = (k, v)"
      by (cases a) (auto simp: image_iff)
    moreover have "filter (\<lambda>g. fst g = k) d = []"
      using Cons.prems True by (auto simp: filter_empty_conv image_iff)
    ultimately show ?thesis by simp
  next
    case False
    with Cons show ?thesis by auto
  qed
qed

lemma filter_key_absent:
  "k \<notin> set (map fst d) \<Longrightarrow> filter (\<lambda>g. fst g = k) d = []"
  by (auto simp: filter_empty_conv image_iff)

lemma actions_for_key:
  "filter (\<lambda>a. action_name a = k) (symbol_actions dir listing) =
     (let st = first_pass dir listing; files = dd_get (groups st) k
      in if files = [] then [] else [group_action st (k, files)])"
proof -
  let ?st = "first_pass dir listing"
  have eq: "filter (\<lambda>a. action_name a = k) (map (group_action ?st) (groups ?st)) =
      map (group_action ?st) (filter (\<lambda>g. fst g = k) (groups ?st))"
    by (simp add: filter_map comp_def split_def)
       (metis (mono_tags, lifting) action_name_group_action filter_cong prod.collapse)
  show ?thesis
  proof (cases "k \<in> set (map fst (groups ?st))")
    case True
    then obtain files where in_g: "(k, files) \<in> set (groups ?st)" by auto
    then have ne: "files \<noteq> []" by (rule groups_nonempty)
    have "map_of (groups ?st) k = Some files"
      using in_g groups_distinct by (simp add: map_of_is_SomeI)
    then have "dd_get (groups ?st) k = files" by (simp add: dd_get_def)
    then show ?thesis
      using eq ne filter_key_distinct [OF groups_distinct in_g]
      by (simp add: symbol_actions_def Let_def)
  next
    case False
    then have "dd_get (groups ?st) k = []"
      by (simp add: dd_get_absent)
    then show ?thesis
      using eq filter_key_absent [OF False]
      by (simp add: symbol_actions_def Let_def)
  qed
qed


lemma second_pass_build_actions:
  "second_pass fs st gs all_symbols = build_actions fs (map (group_action st) gs) all_symbols"
  by (induction gs arbitrary: all_symbols)
     (auto simp: build_action_def bind_err_def split: action.splits sum.splits)

lemma process_symbol_images_actions:
  "process_symbol_images fs listdir directory_path =
     bind_err (build_actions fs (symbol_actions directory_path (listdir directory_path)) [])
       (\<lambda>all_symbols. Inr (concat all_symbols))"
  by (simp add: process_symbol_images_def symbol_actions_def Let_def second_pass_build_actions)



subsection \<open>Strings\<close>

lemma py_lower_append [simp]: "py_lower (a @ b) = py_lower a @ py_lower b"
  by (simp add: py_lower_def)



lemma check_filename_compatibility_append [simp]:
  "check_filename_compatibility (a @ b) \<longleftrightarrow>
     check_filename_compatibility a \<and> check_filename_compatibility b"
  by (simp add: check_filename_compatibility_def)


subsection \<open>The lazy group\<close>



lemma variant_tail_suffix [simp]:
  "variant_tail '' vari_01.png''" "variant_tail '' vari_02.png''"
  by (simp_all add: variant_tail_def is_space_def py_lower_def py_lower_char_def)



subsection \<open>Paths and their order\<close>







lemma distinct_one:
  assumes "distinct ys" and "set ys = {a}"
  shows "ys = [a]"
proof -
  have "length ys = 1"
    using assms by (metis card_1_singleton_iff distinct_card One_nat_def)
  then obtain x where "ys = [x]"
    by (metis One_nat_def length_0_conv length_Suc_conv)
  with assms show ?thesis by auto
qed

section \<open>The catalog header\<close>

text \<open>
  Claim C9. The header built at catalog-assembly time always exists, its bytes are exactly
  \<open>sizeof_FileID = 128\<close> long, its compressed flag (the byte at offset 48) is 0, its last
  byte is the sentinel \<open>0xFF\<close>, and the written stream is these very bytes followed by the
  info blocks and then the symbols: the header is written first and as constructed.
\<close>

theorem catalog_header_written_first:
  "\<exists>h. FileID_init = Inr h \<and> length (bytes_FileID h) = sizeof_FileID \<and> sizeof_FileID = 128 \<and>
       Compressed h = 0 \<and> bytes_FileID h ! 48 = 0 \<and> last (bytes_FileID h) = 0xFF \<and>
       (\<forall>infoblocks symbols.
          write_fsc infoblocks symbols = Inr (bytes_FileID h @ infoblocks @ symbols))"
  by (simp add: FileID_init_value write_fsc_def bytes_FileID_def bytes_of_str_def nth_append)

section \<open>Record lengths\<close>

text \<open>
  Claim C1. The record-length field written by each constructor is the byte size of the
  record that owns it: for a symbol-definition, picture and symbol-info record built alone,
  for the two markers, and for every record inside a simple or varicolor symbol, whatever
  the name, the files and the group flag were. Reading the first four bytes of the encoded
  record back gives that same length, also at the start of a whole encoded symbol.
\<close>

theorem record_length_fields:
  "ERLen_matches (ERLen (SYMDEF_CStuff (SYMDEF_init SYMDEF_zero))) (bytes_SYMDEF (SYMDEF_init SYMDEF_zero)) \<and>
   length (bytes_SYMDEF (SYMDEF_init SYMDEF_zero)) = sizeof_SYMDEF \<and>
   (\<exists>p. PICTR_init PICTR_zero = Inr p \<and> ERLen_matches (ERLen (PICTR_CStuff p)) (bytes_PICTR p) \<and>
        length (bytes_PICTR p) = sizeof_PICTR) \<and>
   (\<exists>i. SYMINFO_init SYMINFO_zero = Inr i \<and> ERLen_matches (ERLen (SYMINFO_CStuff i)) (bytes_SYMINFO i) \<and>
        length (bytes_SYMINFO i) = sizeof_SYMINFO) \<and>
   ERLen_matches (Marker_ERLen (Marker0_init Marker_zero)) (bytes_Marker (Marker0_init Marker_zero)) \<and>
   ERLen_matches (Marker_ERLen (Marker1_init Marker_zero)) (bytes_Marker (Marker1_init Marker_zero)) \<and>
   (SimpleSymbol_init fs name file g = Inr s \<longrightarrow>
      ERLen_matches (ERLen (SYMDEF_CStuff (symbol_definition s))) (bytes_SYMDEF (symbol_definition s)) \<and>
      ERLen_matches (Marker_ERLen (start_marker s)) (bytes_Marker (start_marker s)) \<and>
      ERLen_matches (ERLen (PICTR_CStuff (picture_info s))) (bytes_PICTR (picture_info s)) \<and>
      ERLen_matches (ERLen (SYMINFO_CStuff (symbol_info s))) (bytes_SYMINFO (symbol_info s)) \<and>
      ERLen_matches (Marker_ERLen (end_marker s)) (bytes_Marker (end_marker s)) \<and>
      read_le32 (bytes_SimpleSymbol s) = Some (word_of_nat (length (bytes_SYMDEF (symbol_definition s))))) \<and>
   (VaricolorSymbol_init fs' name' file1 file2 g' = Inr v \<longrightarrow>
      ERLen_matches (ERLen (SYMDEF_CStuff (v_symbol_definition v))) (bytes_SYMDEF (v_symbol_definition v)) \<and>
      ERLen_matches (Marker_ERLen (v_start_marker v)) (bytes_Marker (v_start_marker v)) \<and>
      ERLen_matches (ERLen (PICTR_CStuff (picture1_info v))) (bytes_PICTR (picture1_info v)) \<and>
      ERLen_matches (ERLen (PICTR_CStuff (picture2_info v))) (bytes_PICTR (picture2_info v)) \<and>
      ERLen_matches (ERLen (SYMINFO_CStuff (v_symbol_info v))) (bytes_SYMINFO (v_symbol_info v)) \<and>
      ERLen_matches (Marker_ERLen (v_end_marker v)) (bytes_Marker (v_end_marker v)) \<and>
      read_le32 (bytes_VaricolorSymbol v) = Some (word_of_nat (length (bytes_SYMDEF (v_symbol_definition v)))))"
proof -
  have a: "ERLen_matches (ERLen (SYMDEF_CStuff (SYMDEF_init SYMDEF_zero))) (bytes_SYMDEF (SYMDEF_init SYMDEF_zero))"
    by (rule ERLen_matches_SYMDEF) (simp_all add: SYMDEF_init_def SYMDEF_zero_def CSTUFF_init_def)
  have b: "length (bytes_SYMDEF (SYMDEF_init SYMDEF_zero)) = sizeof_SYMDEF"
    by (simp add: length_bytes_SYMDEF SYMDEF_init_def SYMDEF_zero_def)
  have c: "\<exists>p. PICTR_init PICTR_zero = Inr p \<and> ERLen_matches (ERLen (PICTR_CStuff p)) (bytes_PICTR p) \<and>
        length (bytes_PICTR p) = sizeof_PICTR"
    by (simp add: PICTR_init_eq ERLen_matches_PICTR length_bytes_PICTR PICTR_zero_def
        CSTUFF_init_def RESINFO_COUNT_def)
  have d: "\<exists>i. SYMINFO_init SYMINFO_zero = Inr i \<and> ERLen_matches (ERLen (SYMINFO_CStuff i)) (bytes_SYMINFO i) \<and>
        length (bytes_SYMINFO i) = sizeof_SYMINFO"
    by (simp add: SYMINFO_init_eq ERLen_matches_SYMINFO length_bytes_SYMINFO SYMINFO_zero_def
        CSTUFF_init_def)
  have e: "ERLen_matches (Marker_ERLen (Marker0_init Marker_zero)) (bytes_Marker (Marker0_init Marker_zero))"
    "ERLen_matches (Marker_ERLen (Marker1_init Marker_zero)) (bytes_Marker (Marker1_init Marker_zero))"
    by (simp_all add: ERLen_matches_Marker Marker0_init_def Marker1_init_def Marker_init_def)
  have f: "ERLen_matches (ERLen (SYMDEF_CStuff (symbol_definition s))) (bytes_SYMDEF (symbol_definition s)) \<and>
      ERLen_matches (Marker_ERLen (start_marker s)) (bytes_Marker (start_marker s)) \<and>
      ERLen_matches (ERLen (PICTR_CStuff (picture_info s))) (bytes_PICTR (picture_info s)) \<and>
      ERLen_matches (ERLen (SYMINFO_CStuff (symbol_info s))) (bytes_SYMINFO (symbol_info s)) \<and>
      ERLen_matches (Marker_ERLen (end_marker s)) (bytes_Marker (end_marker s)) \<and>
      read_le32 (bytes_SimpleSymbol s) = Some (word_of_nat (length (bytes_SYMDEF (symbol_definition s))))"
    if h: "SimpleSymbol_init fs name file g = Inr s"
    using SimpleSymbol_init_InrD [OF h]
    by (simp add: ERLen_matches_SYMDEF ERLen_matches_PICTR ERLen_matches_SYMINFO
        ERLen_matches_Marker length_bytes_SYMDEF bytes_SimpleSymbol_def)
  have g: "ERLen_matches (ERLen (SYMDEF_CStuff (v_symbol_definition v))) (bytes_SYMDEF (v_symbol_definition v)) \<and>
      ERLen_matches (Marker_ERLen (v_start_marker v)) (bytes_Marker (v_start_marker v)) \<and>
      ERLen_matches (ERLen (PICTR_CStuff (picture1_info v))) (bytes_PICTR (picture1_info v)) \<and>
      ERLen_matches (ERLen (PICTR_CStuff (picture2_info v))) (bytes_PICTR (picture2_info v)) \<and>
      ERLen_matches (ERLen (SYMINFO_CStuff (v_symbol_info v))) (bytes_SYMINFO (v_symbol_info v)) \<and>
      ERLen_matches (Marker_ERLen (v_end_marker v)) (bytes_Marker (v_end_marker v)) \<and>
      read_le32 (bytes_VaricolorSymbol v) = Some (word_of_nat (length (bytes_SYMDEF (v_symbol_definition v))))"
    if h: "VaricolorSymbol_init fs' name' file1 file2 g' = Inr v"
    using VaricolorSymbol_init_InrD [OF h]
    by (simp add: ERLen_matches_SYMDEF ERLen_matches_PICTR ERLen_matches_SYMINFO
        ERLen_matches_Marker length_bytes_SYMDEF bytes_VaricolorSymbol_def)
  show ?thesis using a b c d e f g by blast
qed

theorem record_length_fields_witness:
  "\<exists>s v. SimpleSymbol_init example_fs ''Tree'' ''d/Tree.png'' True = Inr s \<and>
     VaricolorSymbol_init example_fs ''Tower'' ''d/Tower vari_01.png'' ''d/Tower vari_02.png'' True = Inr v \<and>
     ERLen_matches (ERLen (SYMDEF_CStuff (symbol_definition s))) (bytes_SYMDEF (symbol_definition s)) \<and>
     ERLen_matches (ERLen (PICTR_CStuff (picture2_info v))) (bytes_PICTR (picture2_info v))"
proof -
  obtain s where s: "SimpleSymbol_init example_fs ''Tree'' ''d/Tree.png'' True = Inr s"
    using example_simple_built by blast
  obtain v where v: "VaricolorSymbol_init example_fs ''Tower'' ''d/Tower vari_01.png'' ''d/Tower vari_02.png'' True = Inr v"
    using example_varicolor_built by blast
  show ?thesis
    using record_length_fields [of example_fs "''Tree''" "''d/Tree.png''" True s
        example_fs "''Tower''" "''d/Tower vari_01.png''" "''d/Tower vari_02.png''" True v] s v
    by blast
qed

section \<open>Layout of a symbol entity\<close>

text \<open>
  Claim C2. The bytes of a simple symbol are those of its symbol definition, start marker,
  picture, symbol info and end marker, in this order and with nothing between them: the
  total length is the sum of the five structure sizes. A varicolor symbol is the same with
  two pictures. A marker is the five bytes \<open>05 00 00 00 t\<close>: a 32-bit length of 5 and the
  type code, 0 for the start marker and 1 for the end marker.
\<close>

theorem symbol_layout:
  "bytes_Marker (Marker0_init Marker_zero) = [5, 0, 0, 0, 0] \<and>
   bytes_Marker (Marker1_init Marker_zero) = [5, 0, 0, 0, 1] \<and>
   (SimpleSymbol_init fs name file g = Inr s \<longrightarrow>
      bytes_SimpleSymbol s =
        bytes_SYMDEF (symbol_definition s) @ bytes_Marker (start_marker s) @
        bytes_PICTR (picture_info s) @ bytes_SYMINFO (symbol_info s) @ bytes_Marker (end_marker s) \<and>
      length (bytes_SYMDEF (symbol_definition s)) = sizeof_SYMDEF \<and>
      length (bytes_PICTR (picture_info s)) = sizeof_PICTR \<and>
      length (bytes_SYMINFO (symbol_info s)) = sizeof_SYMINFO \<and>
      length (bytes_SimpleSymbol s) =
        sizeof_SYMDEF + sizeof_Marker + sizeof_PICTR + sizeof_SYMINFO + sizeof_Marker \<and>
      bytes_Marker (start_marker s) = [5, 0, 0, 0, 0] \<and>
      bytes_Marker (end_marker s) = [5, 0, 0, 0, 1]) \<and>
   (VaricolorSymbol_init fs' name' file1 file2 g' = Inr v \<longrightarrow>
      bytes_VaricolorSymbol v =
        bytes_SYMDEF (v_symbol_definition v) @ bytes_Marker (v_start_marker v) @
        bytes_PICTR (picture1_info v) @ bytes_PICTR (picture2_info v) @
        bytes_SYMINFO (v_symbol_info v) @ bytes_Marker (v_end_marker v) \<and>
      length (bytes_SYMDEF (v_symbol_definition v)) = sizeof_SYMDEF \<and>
      length (bytes_PICTR (picture1_info v)) = sizeof_PICTR \<and>
      length (bytes_PICTR (picture2_info v)) = sizeof_PICTR \<and>
      length (bytes_SYMINFO (v_symbol_info v)) = sizeof_SYMINFO \<and>
      length (bytes_VaricolorSymbol v) =
        sizeof_SYMDEF + sizeof_Marker + sizeof_PICTR + sizeof_PICTR + sizeof_SYMINFO + sizeof_Marker \<and>
      bytes_Marker (v_start_marker v) = [5, 0, 0, 0, 0] \<and>
      bytes_Marker (v_end_marker v) = [5, 0, 0, 0, 1])"
proof -
  have m: "bytes_Marker (Marker0_init Marker_zero) = [5, 0, 0, 0, 0]"
    "bytes_Marker (Marker1_init Marker_zero) = [5, 0, 0, 0, 1]"
    by (simp_all add: Marker0_init_def Marker1_init_def Marker_init_def Marker_zero_def bytes_Marker_def le32_5)
  have a: "bytes_SimpleSymbol s =
        bytes_SYMDEF (symbol_definition s) @ bytes_Marker (start_marker s) @
        bytes_PICTR (picture_info s) @ bytes_SYMINFO (symbol_info s) @ bytes_Marker (end_marker s) \<and>
      length (bytes_SYMDEF (symbol_definition s)) = sizeof_SYMDEF \<and>
      length (bytes_PICTR (picture_info s)) = sizeof_PICTR \<and>
      length (bytes_SYMINFO (symbol_info s)) = sizeof_SYMINFO \<and>
      length (bytes_SimpleSymbol s) =
        sizeof_SYMDEF + sizeof_Marker + sizeof_PICTR + sizeof_SYMINFO + sizeof_Marker \<and>
      bytes_Marker (start_marker s) = [5, 0, 0, 0, 0] \<and>
      bytes_Marker (end_marker s) = [5, 0, 0, 0, 1]"
    if h: "SimpleSymbol_init fs name file g = Inr s"
    using SimpleSymbol_init_InrD [OF h]
    by (simp add: bytes_SimpleSymbol_def length_bytes_SYMDEF length_bytes_PICTR length_bytes_SYMINFO
        bytes_Marker_values)
  have b: "bytes_VaricolorSymbol v =
        bytes_SYMDEF (v_symbol_definition v) @ bytes_Marker (v_start_marker v) @
        bytes_PICTR (picture1_info v) @ bytes_PICTR (picture2_info v) @
        bytes_SYMINFO (v_symbol_info v) @ bytes_Marker (v_end_marker v) \<and>
      length (bytes_SYMDEF (v_symbol_definition v)) = sizeof_SYMDEF \<and>
      length (bytes_PICTR (picture1_info v)) = sizeof_PICTR \<and>
      length (bytes_PICTR (picture2_info v)) = sizeof_PICTR \<and>
      length (bytes_SYMINFO (v_symbol_info v)) = sizeof_SYMINFO \<and>
      length (bytes_VaricolorSymbol v) =
        sizeof_SYMDEF + sizeof_Marker + sizeof_PICTR + sizeof_PICTR + sizeof_SYMINFO + sizeof_Marker \<and>
      bytes_Marker (v_start_marker v) = [5, 0, 0, 0, 0] \<and>
      bytes_Marker (v_end_marker v) = [5, 0, 0, 0, 1]"
    if h: "VaricolorSymbol_init fs' name' file1 file2 g' = Inr v"
    using VaricolorSymbol_init_InrD [OF h]
    by (simp add: bytes_VaricolorSymbol_def length_bytes_SYMDEF length_bytes_PICTR length_bytes_SYMINFO
        bytes_Marker_values)
  show ?thesis using m a b by blast
qed

theorem symbol_layout_witness:
  "\<exists>s v. SimpleSymbol_init example_fs ''Tree'' ''d/Tree.png'' True = Inr s \<and>
     VaricolorSymbol_init example_fs ''Tower'' ''d/Tower vari_01.png'' ''d/Tower vari_02.png'' True = Inr v \<and>
     length (bytes_SimpleSymbol s) = 1015 \<and> length (bytes_VaricolorSymbol v) = 1526 \<and>
     bytes_Marker (start_marker s) = [5, 0, 0, 0, 0] \<and> bytes_Marker (v_end_marker v) = [5, 0, 0, 0, 1]"
proof -
  obtain s where s: "SimpleSymbol_init example_fs ''Tree'' ''d/Tree.png'' True = Inr s"
    using example_simple_built by blast
  obtain v where v: "VaricolorSymbol_init example_fs ''Tower'' ''d/Tower vari_01.png'' ''d/Tower vari_02.png'' True = Inr v"
    using example_varicolor_built by blast
  show ?thesis
    using symbol_layout [of example_fs "''Tree''" "''d/Tree.png''" True s
        example_fs "''Tower''" "''d/Tower vari_01.png''" "''d/Tower vari_02.png''" True v] s v
    by simp
qed

section \<open>Flags of a varicolor symbol\<close>

text \<open>
  Claim C5. In every varicolor symbol the symbol info has \<open>SF_VARICOLOR\<close> set, and the
  entity flags of the second picture are \<open>EF_CSREF\<close>, which makes it the mask (those of the
  first picture are 0). Built with the group flag, the symbol info also has \<open>SF_GROUPED\<close> and
  its group flags are \<open>SGF_VARICOLOR\<close> and \<open>SGF_RANDOM\<close>; built without it, neither.
\<close>

theorem varicolor_flags:
  "VaricolorSymbol_init fs name file1 file2 g = Inr v \<longrightarrow>
     SYMINFO_Flags (v_symbol_info v) AND SF_VARICOLOR = SF_VARICOLOR \<and>
     EFlags (PICTR_CStuff (picture2_info v)) = word_of_int EF_CSREF \<and>
     EFlags (PICTR_CStuff (picture1_info v)) = 0 \<and>
     (if g
      then SYMINFO_Flags (v_symbol_info v) = SF_VARICOLOR OR SF_GROUPED \<and>
           SYMINFO_Flags (v_symbol_info v) AND SF_GROUPED = SF_GROUPED \<and>
           GFlags (v_symbol_info v) = SGF_VARICOLOR OR SGF_RANDOM \<and>
           GFlags (v_symbol_info v) AND SGF_VARICOLOR = SGF_VARICOLOR \<and>
           GFlags (v_symbol_info v) AND SGF_RANDOM = SGF_RANDOM
      else SYMINFO_Flags (v_symbol_info v) = SF_VARICOLOR \<and> GFlags (v_symbol_info v) = 0)"
  by (auto simp: VaricolorSymbol_init_eq EF_CSREF_def split: sum.splits option.splits prod.splits)

theorem varicolor_flags_witness:
  "\<exists>v. VaricolorSymbol_init example_fs ''Tower'' ''d/Tower vari_01.png'' ''d/Tower vari_02.png'' True = Inr v \<and>
     SYMINFO_Flags (v_symbol_info v) = 6 \<and> GFlags (v_symbol_info v) = 0x180 \<and>
     EFlags (PICTR_CStuff (picture2_info v)) = 8"
proof -
  obtain v where v: "VaricolorSymbol_init example_fs ''Tower'' ''d/Tower vari_01.png'' ''d/Tower vari_02.png'' True = Inr v"
    using example_varicolor_built by blast
  show ?thesis
    using varicolor_flags [of example_fs "''Tower''" "''d/Tower vari_01.png''" "''d/Tower vari_02.png''" True v] v
    by (simp add: EF_CSREF_def)
qed

section \<open>Extents\<close>

text \<open>
  Claim C6. When the image read for a symbol has pixel size \<open>(w, h)\<close>, the high extent of
  the symbol definition is \<open>(w / 40, h / 40, 0)\<close> and the low extent is the origin. The
  quotient is the one the code computes: \<^verbatim>\<open>float(w) / 40\<close> as a double, stored in a
  single-precision field. A varicolor symbol takes both from its first image, whatever
  the size of the second.
\<close>

theorem symbol_extents:
  "(png_dimensions fs file = Inr (Some w, Some h) \<and> SimpleSymbol_init fs name file g = Inr s \<longrightarrow>
      Hi (symbol_definition s) =
        \<lparr>p3x = c_float_set (py_truediv (float_of_nat w) 40),
         p3y = c_float_set (py_truediv (float_of_nat h) 40), p3z = c_float_set (PyFloat 0 0)\<rparr> \<and>
      Low (symbol_definition s) =
        \<lparr>p3x = c_float_set (PyFloat 0 0), p3y = c_float_set (PyFloat 0 0),
         p3z = c_float_set (PyFloat 0 0)\<rparr>) \<and>
   (png_dimensions fs' file1 = Inr (Some w1, Some h1) \<and>
    VaricolorSymbol_init fs' name' file1 file2 g' = Inr v \<longrightarrow>
      Hi (v_symbol_definition v) =
        \<lparr>p3x = c_float_set (py_truediv (float_of_nat w1) 40),
         p3y = c_float_set (py_truediv (float_of_nat h1) 40), p3z = c_float_set (PyFloat 0 0)\<rparr> \<and>
      Low (v_symbol_definition v) =
        \<lparr>p3x = c_float_set (PyFloat 0 0), p3y = c_float_set (PyFloat 0 0),
         p3z = c_float_set (PyFloat 0 0)\<rparr>) \<and>
   c_float_set (PyFloat 0 0) = 0"
  by (auto simp: SimpleSymbol_init_eq VaricolorSymbol_init_eq
      split: sum.splits option.splits prod.splits)

theorem symbol_extents_witness:
  "\<exists>s v. SimpleSymbol_init example_fs ''Tree'' ''d/Tree.png'' True = Inr s \<and>
     VaricolorSymbol_init example_fs ''Tower'' ''d/Tower vari_01.png'' ''d/Tower vari_02.png'' True = Inr v \<and>
     png_dimensions example_fs ''d/Tower vari_01.png'' = Inr (Some 100, Some 3) \<and>
     png_dimensions example_fs ''d/Tower vari_02.png'' = Inr (Some 7, Some 9) \<and>
     Hi (symbol_definition s) = \<lparr>p3x = 0x40200000, p3y = 0x3D99999A, p3z = 0\<rparr> \<and>
     Hi (v_symbol_definition v) = \<lparr>p3x = 0x40200000, p3y = 0x3D99999A, p3z = 0\<rparr> \<and>
     Low (v_symbol_definition v) = \<lparr>p3x = 0, p3y = 0, p3z = 0\<rparr>"
proof -
  obtain s where s: "SimpleSymbol_init example_fs ''Tree'' ''d/Tree.png'' True = Inr s"
    using example_simple_built by blast
  obtain v where v: "VaricolorSymbol_init example_fs ''Tower'' ''d/Tower vari_01.png'' ''d/Tower vari_02.png'' True = Inr v"
    using example_varicolor_built by blast
  show ?thesis
    using symbol_extents [of example_fs "''d/Tree.png''" 100 3 "''Tree''" True s
        example_fs "''d/Tower vari_01.png''" 100 3 "''Tower''" "''d/Tower vari_02.png''" True v] s v
    by simp
qed

section \<open>Pixel fields of a picture record\<close>

text \<open>
  Claim C10. In every picture record of either symbol kind the bitmap width and height
  are 0 and the four resolution slots are all zero, although the flags of the record have
  \<open>PF_RESINFO_VALID\<close> set; the image size appears only in \<open>RWid\<close> and \<open>RHgt\<close>, as pixels
  divided by 40 (for the second picture of a varicolor symbol, those of the second image).
\<close>

theorem picture_pixel_fields_zero:
  "(png_dimensions fs file = Inr (Some w, Some h) \<and> SimpleSymbol_init fs name file g = Inr s \<longrightarrow>
      bmwid (picture_info s) = 0 \<and> bmhgt (picture_info s) = 0 \<and>
      ResInfo (picture_info s) =
        replicate 4 \<lparr>Present = 0, res_width = 0, res_height = 0\<rparr> \<and>
      PICTR_Flags (picture_info s) AND PF_RESINFO_VALID = PF_RESINFO_VALID \<and>
      RWid (picture_info s) = c_float_set (py_truediv (float_of_nat w) 40) \<and>
      RHgt (picture_info s) = c_float_set (py_truediv (float_of_nat h) 40)) \<and>
   (png_dimensions fs' file1 = Inr (Some w1, Some h1) \<and>
    png_dimensions fs' file2 = Inr (Some w2, Some h2) \<and>
    VaricolorSymbol_init fs' name' file1 file2 g' = Inr v \<longrightarrow>
      bmwid (picture1_info v) = 0 \<and> bmhgt (picture1_info v) = 0 \<and>
      ResInfo (picture1_info v) =
        replicate 4 \<lparr>Present = 0, res_width = 0, res_height = 0\<rparr> \<and>
      PICTR_Flags (picture1_info v) AND PF_RESINFO_VALID = PF_RESINFO_VALID \<and>
      RWid (picture1_info v) = c_float_set (py_truediv (float_of_nat w1) 40) \<and>
      RHgt (picture1_info v) = c_float_set (py_truediv (float_of_nat h1) 40) \<and>
      bmwid (picture2_info v) = 0 \<and> bmhgt (picture2_info v) = 0 \<and>
      ResInfo (picture2_info v) =
        replicate 4 \<lparr>Present = 0, res_width = 0, res_height = 0\<rparr> \<and>
      PICTR_Flags (picture2_info v) AND PF_RESINFO_VALID = PF_RESINFO_VALID \<and>
      RWid (picture2_info v) = c_float_set (py_truediv (float_of_nat w2) 40) \<and>
      RHgt (picture2_info v) = c_float_set (py_truediv (float_of_nat h2) 40))"
  by (auto simp: SimpleSymbol_init_eq VaricolorSymbol_init_eq RESINFO_COUNT_def RESINFO_zero_def
      PF_NO_OUTLINE_def PF_RESINFO_ONLY1_def PF_RESINFO_VALID_def
      split: sum.splits option.splits prod.splits)

theorem picture_pixel_fields_zero_witness:
  "\<exists>s v. SimpleSymbol_init example_fs ''Tree'' ''d/Tree.png'' True = Inr s \<and>
     VaricolorSymbol_init example_fs ''Tower'' ''d/Tower vari_01.png'' ''d/Tower vari_02.png'' True = Inr v \<and>
     bmwid (picture_info s) = 0 \<and> bmhgt (picture2_info v) = 0 \<and>
     RWid (picture_info s) = 0x40200000 \<and> RHgt (picture2_info v) = 0x3E666666"
proof -
  obtain s where s: "SimpleSymbol_init example_fs ''Tree'' ''d/Tree.png'' True = Inr s"
    using example_simple_built by blast
  obtain v where v: "VaricolorSymbol_init example_fs ''Tower'' ''d/Tower vari_01.png'' ''d/Tower vari_02.png'' True = Inr v"
    using example_varicolor_built by blast
  show ?thesis
    using picture_pixel_fields_zero [of example_fs "''d/Tree.png''" 100 3 "''Tree''" True s
        example_fs "''d/Tower vari_01.png''" 100 3 "''d/Tower vari_02.png''" 7 9 "''Tower''" True v] s v
    by simp
qed

section \<open>Names longer than the name field\<close>

text \<open>
  Claim C8, as amended. A name whose encoding has more than 32 bytes before its first NUL
  byte, in particular every ASCII name of more than 32 characters none of which is NUL,
  makes both constructors raise \<^verbatim>\<open>ValueError\<close>: the assignment to the 32-byte field
  refuses it, before any image is read, and no symbol is built. A name without NUL byte
  that is accepted has at most 32 bytes and is stored followed by NUL bytes.
\<close>

theorem long_name_raises:
  "(length (takeWhile (\<lambda>b. b \<noteq> 0) (encode_utf8 name)) > 32 \<longrightarrow>
      SimpleSymbol_init fs name file g = Inl ValueError \<and>
      VaricolorSymbol_init fs name file1 file2 g = Inl ValueError) \<and>
   (list_all (\<lambda>c. 0 < (of_char c :: nat) \<and> (of_char c :: nat) < 128) name \<and> length name > 32 \<longrightarrow>
      SimpleSymbol_init fs name file g = Inl ValueError \<and>
      VaricolorSymbol_init fs name file1 file2 g = Inl ValueError) \<and>
   (SimpleSymbol_init fs name file g = Inr s \<and> 0 \<notin> set (encode_utf8 name) \<longrightarrow>
      length (encode_utf8 name) \<le> 32 \<and>
      SName (symbol_definition s) =
        encode_utf8 name @ replicate (32 - length (encode_utf8 name)) 0)"
proof -
  have a: "SimpleSymbol_init fs name file g = Inl ValueError \<and>
      VaricolorSymbol_init fs name file1 file2 g = Inl ValueError"
    if "length (takeWhile (\<lambda>b. b \<noteq> 0) (encode_utf8 name)) > 32" for name
  proof -
    have "s_set (replicate 32 0) (encode_utf8 name) = Inl ValueError"
      using that by (simp add: s_set_raises_iff)
    then show ?thesis
      by (simp add: SimpleSymbol_init_eq VaricolorSymbol_init_eq)
  qed
  have b: "length (takeWhile (\<lambda>b. b \<noteq> 0) (encode_utf8 name)) > 32"
    if h: "list_all (\<lambda>c. 0 < (of_char c :: nat) \<and> (of_char c :: nat) < 128) name" "length name > 32"
  proof -
    have 1: "list_all (\<lambda>c. (of_char c :: nat) < 128) name" "list_all (\<lambda>c. 0 < (of_char c :: nat)) name"
      using h(1) by (simp_all add: list_all_iff)
    show ?thesis
      using h(2) by (simp add: encode_utf8_ascii [OF 1(1)] takeWhile_nonzero_ascii [OF 1(2)])
  qed
  have c: "length (encode_utf8 name) \<le> 32 \<and> SName (symbol_definition s) =
        encode_utf8 name @ replicate (32 - length (encode_utf8 name)) 0"
    if h: "SimpleSymbol_init fs name file g = Inr s" "0 \<notin> set (encode_utf8 name)"
  proof -
    obtain sname where sn: "s_set (replicate 32 0) (encode_utf8 name) = Inr sname"
      "SName (symbol_definition s) = sname"
      using h(1)
      by (auto simp: SimpleSymbol_init_eq split: sum.splits option.splits prod.splits)
    have tw: "takeWhile (\<lambda>b. b \<noteq> 0) (encode_utf8 name) = encode_utf8 name"
      using h(2) by (induction "encode_utf8 name") auto
    have "length (encode_utf8 name) \<le> 32"
      using sn(1) by (auto simp: s_set_def Let_def tw split: if_splits)
    then show ?thesis
      using s_set_padded [OF sn(1) h(2)] sn(2) by simp
  qed
  show ?thesis using a b c by blast
qed

theorem long_name_raises_witness:
  "length (takeWhile (\<lambda>b. b \<noteq> 0) (encode_utf8 example_long_name)) > 32 \<and>
   list_all (\<lambda>c. 0 < (of_char c :: nat) \<and> (of_char c :: nat) < 128) example_long_name \<and>
   length example_long_name > 32 \<and>
   SimpleSymbol_init example_fs example_long_name ''d/Tree.png'' False = Inl ValueError \<and>
   (\<exists>s. SimpleSymbol_init example_fs ''Tree'' ''d/Tree.png'' True = Inr s \<and>
        0 \<notin> set (encode_utf8 ''Tree'') \<and>
        SName (symbol_definition s) = encode_utf8 ''Tree'' @ replicate 28 0)"
proof -
  have 1: "list_all (\<lambda>c. 0 < (of_char c :: nat) \<and> (of_char c :: nat) < 128) example_long_name"
    "length example_long_name > 32"
    by (simp_all add: example_long_name_def)
  have 2: "length (takeWhile (\<lambda>b. b \<noteq> 0) (encode_utf8 example_long_name)) > 32"
    by (simp add: example_long_name_def encode_utf8_def)
  obtain s where s: "SimpleSymbol_init example_fs ''Tree'' ''d/Tree.png'' True = Inr s"
    using example_simple_built by blast
  have 3: "0 \<notin> set (encode_utf8 ''Tree'')"
    by (simp add: encode_utf8_def)
  have 4: "length (encode_utf8 ''Tree'') = 4"
    by (simp add: encode_utf8_def)
  show ?thesis
    using long_name_raises [of example_long_name example_fs "''d/Tree.png''" False "''d/Tree.png''" "''d/Tree.png''" SimpleSymbol_zero]
      long_name_raises [of "''Tree''" example_fs "''d/Tree.png''" True "''d/Tree.png''" "''d/Tree.png''" s]
      1 2 3 4 s
    by simp
qed

text \<open>
  The claim as stated (the construction completes and the name overflows silently) fails
  for a 37-character ASCII name and a readable image.
\<close>

theorem long_name_counterexample:
  "check_filename_compatibility ''Walled Garden With Fountain North 001'' \<and>
   length (encode_utf8 ''Walled Garden With Fountain North 001'') = 37 \<and>
   png_dimensions example_fs ''d/Tree.png'' = Inr (Some 100, Some 3) \<and>
   SimpleSymbol_init example_fs ''Walled Garden With Fountain North 001'' ''d/Tree.png'' False =
     Inl ValueError"
  by (simp add: SimpleSymbol_init_eq s_set_def encode_utf8_def check_filename_compatibility_def)

section \<open>An image that cannot be read\<close>

text \<open>
  Claim C7, evaluated on a directory that holds a good image and a text file named
  \<^verbatim>\<open>Text.png\<close>. The dimension lookup of the text file returns \<^verbatim>\<open>(None, None)\<close>, the
  constructor then raises \<^verbatim>\<open>TypeError\<close> at \<^verbatim>\<open>float(None)\<close>, and nothing catches it:
  the directory and the whole catalog end with that exception, although the directory
  without the text file yields the symbol of the good image.
\<close>

theorem unreadable_image_aborts_batch:
  "png_dimensions example_fs ''d/Text.png'' = Inr (None, None) \<and>
   SimpleSymbol_init example_fs ''Text'' ''d/Text.png'' False = Inl TypeError \<and>
   example_listdir ''d'' = [''Tree.png'', ''Text.png''] \<and>
   process_symbol_images example_fs example_listdir ''d'' = Inl TypeError \<and>
   create_symbol_catalog example_fs example_listdir infoblocks [''d''] = Inl TypeError \<and>
   (\<exists>s. SimpleSymbol_init example_fs ''Tree'' ''d/Tree.png'' False = Inr s \<and>
        process_symbol_images example_fs (\<lambda>directory. [''Tree.png'']) ''d'' =
          Inr (bytes_SimpleSymbol s))"
proof -
  obtain s where s: "SimpleSymbol_init example_fs ''Tree'' ''d/Tree.png'' False = Inr s"
    using SimpleSymbol_init_succeeds [of "''Tree''" example_fs "''d/Tree.png''" 100 3 False]
    by (auto simp: encode_utf8_def)
  have t: "SimpleSymbol_init example_fs ''Text'' ''d/Text.png'' False = Inl TypeError"
    by (simp add: SimpleSymbol_init_eq s_set_def encode_utf8_def)
  have p: "process_symbol_images example_fs example_listdir ''d'' = Inl TypeError"
    by (simp add: process_symbol_images_def example_listdir_def example_first_pass example_group_action example_normpath handle_single_symbol_def s t)
  have q: "process_symbol_images example_fs (\<lambda>directory. [''Tree.png'']) ''d'' = Inr (bytes_SimpleSymbol s)"
    by (simp add: process_symbol_images_def example_first_pass_single example_group_action example_normpath handle_single_symbol_def s)
  show ?thesis
    using s t p q by (simp add: create_symbol_catalog_def example_listdir_def)
qed

section \<open>Grouping: a pair of variant images\<close>




section \<open>Grouping: a single image\<close>

text \<open>
  What the second loop does for a single image away from the variant names. Let a
  directory list an accepted file name (a \<^verbatim>\<open>.png\<close> name in ASCII) that does not match the
  variant pattern, whose joined path does not contain \<^verbatim>\<open>vari_\<close>, and let no other
  accepted file of the directory have its group key. Then the loop takes exactly one
  decision for that key: a simple symbol named by the stem of the file name, with the path
  of the file. Its group flag is set exactly when the stem ends in digits and the plain
  subgroup of the prefix before them has more than one member; that subgroup holds the
  paths of the accepted files outside the variant pattern whose stem has this prefix.
\<close>

theorem single_file_grouped:
  assumes "distinct listing" and "f \<in> set listing" and "accepted f"
    and "variant_pattern_match f = None"
    and "\<not> str_contains ''vari_'' (path_join dir f)"
    and "\<forall>g \<in> set listing. accepted g \<and> group_key g = fst (splitext f) \<longrightarrow> g = f"
  shows "\<exists>grp.
     filter (\<lambda>a. action_name a = fst (splitext f)) (symbol_actions dir listing) =
       [SingleSymbol (fst (splitext f)) (path_join dir f) grp] \<and>
     (grp \<longleftrightarrow> (\<exists>p. subgroup_pattern_match (fst (splitext f)) = Some p \<and>
                    1 < length (dd_get (subgroup_normal (first_pass dir listing)) p))) \<and>
     (\<forall>p. dd_get (subgroup_normal (first_pass dir listing)) p =
            map (path_join dir)
              (filter (\<lambda>g. accepted g \<and> variant_pattern_match g = None \<and>
                           subgroup_pattern_match (fst (splitext g)) = Some p) listing))"
proof -
  let ?stem = "fst (splitext f)"
  let ?st = "first_pass dir listing"
  let ?sel = "filter (\<lambda>g. accepted g \<and> group_key g = ?stem) listing"
  have key: "group_key f = ?stem"
    using assms(4) by (simp add: group_key_def)
  have s1: "set ?sel = {f}"
    using assms(2,3,6) key by auto
  have s2: "distinct ?sel" using assms(1) by simp
  have sel: "?sel = [f]"
    using s2 s1 by (rule distinct_one)
  have files: "dd_get (groups ?st) ?stem = [path_join dir f]"
    by (simp only: groups_files sel list.map)
  have act: "group_action ?st (?stem, [path_join dir f]) =
      SingleSymbol ?stem (path_join dir f) (in_subgroup (subgroup_normal ?st) ?stem 1)"
    using assms(5) by (simp add: group_action_def)
  have 1: "filter (\<lambda>a. action_name a = ?stem) (symbol_actions dir listing) =
       [SingleSymbol ?stem (path_join dir f) (in_subgroup (subgroup_normal ?st) ?stem 1)]"
    by (simp add: actions_for_key Let_def files act)
  have 2: "in_subgroup (subgroup_normal ?st) ?stem 1 \<longleftrightarrow>
      (\<exists>p. subgroup_pattern_match ?stem = Some p \<and> 1 < length (dd_get (subgroup_normal ?st) p))"
    by (rule in_subgroup_iff)
  have 3: "dd_get (subgroup_normal ?st) p =
            map (path_join dir)
              (filter (\<lambda>g. accepted g \<and> variant_pattern_match g = None \<and>
                           subgroup_pattern_match (fst (splitext g)) = Some p) listing)" for p
  proof -
    have "filter (\<lambda>g. accepted g \<and> variant_pattern_match g = None \<and>
               subgroup_pattern_match (group_key g) = Some p) listing =
          filter (\<lambda>g. accepted g \<and> variant_pattern_match g = None \<and>
               subgroup_pattern_match (fst (splitext g)) = Some p) listing"
      by (rule filter_cong [OF refl]) (auto simp: group_key_def)
    then show ?thesis by (simp only: subgroup_normal_files)
  qed
  show ?thesis
    by (rule exI [of _ "in_subgroup (subgroup_normal ?st) ?stem 1"]) (intro conjI allI 1 2 3)
qed

theorem single_file_grouped_witness:
  "\<exists>grp. filter (\<lambda>a. action_name a = ''Tower 01'') (symbol_actions ''d'' example_listing) =
       [SingleSymbol ''Tower 01'' ''d/Tower 01.png'' grp] \<and> grp"
proof -
  have h: "distinct example_listing" "''Tower 01.png'' \<in> set example_listing"
    by (simp_all add: example_listing_def)
  have a: "accepted ''Tower 01.png''" "variant_pattern_match ''Tower 01.png'' = None"
    "\<not> str_contains ''vari_'' (path_join ''d'' ''Tower 01.png'')"
    by code_simp+
  have s: "fst (splitext ''Tower 01.png'') = ''Tower 01''"
    by code_simp
  have g: "\<forall>g \<in> set example_listing. accepted g \<and> group_key g = fst (splitext ''Tower 01.png'') \<longrightarrow>
      g = ''Tower 01.png''"
    by code_simp
  have p: "path_join ''d'' ''Tower 01.png'' = ''d/Tower 01.png''"
    by (simp add: path_join_def endswith_def)
  have m: "subgroup_pattern_match ''Tower 01'' = Some ''Tower ''"
    by code_simp
  have n: "length (dd_get (subgroup_normal (first_pass ''d'' example_listing)) ''Tower '') = 2"
    by code_simp
  obtain grp where A: "filter (\<lambda>a. action_name a = ''Tower 01'') (symbol_actions ''d'' example_listing) =
       [SingleSymbol ''Tower 01'' ''d/Tower 01.png'' grp]"
    and B: "grp \<longleftrightarrow> (\<exists>p. subgroup_pattern_match ''Tower 01'' = Some p \<and>
                    1 < length (dd_get (subgroup_normal (first_pass ''d'' example_listing)) p))"
    using single_file_grouped [OF h a g, unfolded s p] by (elim exE conjE) (rule that)
  have "grp"
    unfolding B by (rule exI [of _ "''Tower ''"]) (simp add: m n)
  with A show ?thesis by (intro exI conjI)
qed

text \<open>
  Two kinds of single file are left out on purpose by the first loop: a name that is not
  ASCII is skipped and counted, and a name with the variant suffix in upper case matches
  the case-insensitive pattern, so that its key is the base before the suffix.
\<close>

lemma single_file_skipped_or_rekeyed:
  "fst (splitext ''Tree VARI_01.png'') = ''Tree VARI_01'' \<and>
   symbol_actions ''d'' [''Tree VARI_01.png''] = [SingleSymbol ''Tree'' ''d/Tree VARI_01.png'' False] \<and>
   symbol_actions ''d'' [[CHR ''c'', CHR ''a'', CHR ''f'', CHR 0xE9, CHR ''.'', CHR ''p'', CHR ''n'', CHR ''g'']] = []"
  by code_simp

text \<open>
  Claim C4: every single PNG file without \<^verbatim>\<open>vari_\<close> in its name that shares its group
  key with no other file yields exactly one simple symbol keyed by its stem. The code
  breaks this for the file \<^verbatim>\<open>tree.png\<close> in a directory named \<^verbatim>\<open>vari_pack\<close>: the name is
  accepted, is outside the variant pattern and has no \<^verbatim>\<open>vari_\<close> in it, but the second
  loop looks for \<^verbatim>\<open>vari_\<close> in the joined path \<^verbatim>\<open>vari_pack/tree.png\<close>, so the group takes
  the unhandled branch and the directory yields no symbol at all, whatever the file
  holds. The same file in a directory named \<^verbatim>\<open>pack\<close> yields the simple symbol \<^verbatim>\<open>tree\<close>.
\<close>

theorem single_file_dropped_under_vari_directory:
  "accepted ''tree.png'' \<and> variant_pattern_match ''tree.png'' = None \<and>
   \<not> str_contains ''vari_'' ''tree.png'' \<and> fst (splitext ''tree.png'') = ''tree'' \<and>
   symbol_actions ''vari_pack'' [''tree.png''] = [Unhandled ''tree'' [''vari_pack/tree.png'']] \<and>
   process_symbol_images fs (\<lambda>directory. [''tree.png'']) ''vari_pack'' = Inr [] \<and>
   symbol_actions ''pack'' [''tree.png''] = [SingleSymbol ''tree'' ''pack/tree.png'' False]"
proof -
  have a: "accepted ''tree.png''" "variant_pattern_match ''tree.png'' = None"
    "\<not> str_contains ''vari_'' ''tree.png''" "fst (splitext ''tree.png'') = ''tree''"
    by code_simp+
  have b: "symbol_actions ''vari_pack'' [''tree.png''] = [Unhandled ''tree'' [''vari_pack/tree.png'']]"
    by code_simp
  have c: "symbol_actions ''pack'' [''tree.png''] = [SingleSymbol ''tree'' ''pack/tree.png'' False]"
    by code_simp
  have d: "process_symbol_images fs (\<lambda>directory. [''tree.png'']) ''vari_pack'' = Inr []"
    by (simp add: process_symbol_images_actions b build_action_def bind_err_def)
  show ?thesis using a b c d by simp
qed

end
